theory Spec2Isabelle
  imports Main "HOL-Library.AList"
begin

section \<open>Python strings\<close>

text \<open>
  A Python \<open>str\<close> is modelled as a \<^typ>\<open>string\<close>: a list of characters, each read as a
  code point below 256. Indices are integers, \<open>-1\<close> meaning "not found", as
  \<open>str.find\<close> and \<open>str.rfind\<close> return them.
\<close>

definition py_isspace :: "char \<Rightarrow> bool" where
  \<comment> \<open>the characters \<open>str.strip()\<close> removes: tab to carriage return, the four
      separators 0x1C to 0x1F, space, NEL and the no-break space\<close>
  "py_isspace c = (let n = (of_char c :: nat) in
     (9 \<le> n \<and> n \<le> 13) \<or> (28 \<le> n \<and> n \<le> 32) \<or> n = 133 \<or> n = 160)"

definition lstrip :: "string \<Rightarrow> string" where
  "lstrip s = dropWhile py_isspace s"

definition rstrip :: "string \<Rightarrow> string" where
  "rstrip s = rev (dropWhile py_isspace (rev s))"

definition strip :: "string \<Rightarrow> string" where
  "strip s = rstrip (lstrip s)"

definition startswith :: "string \<Rightarrow> string \<Rightarrow> bool" where
  "startswith s p = (take (length p) s = p)"

fun find_first :: "string \<Rightarrow> string \<Rightarrow> nat option" where
  "find_first [] sub = (if sub = [] then Some 0 else None)"
| "find_first (c # cs) sub =
     (if startswith (c # cs) sub then Some 0 else map_option Suc (find_first cs sub))"

fun find_last :: "string \<Rightarrow> string \<Rightarrow> nat option" where
  "find_last [] sub = (if sub = [] then Some 0 else None)"
| "find_last (c # cs) sub =
     (case find_last cs sub of
        Some i \<Rightarrow> Some (Suc i)
      | None \<Rightarrow> if startswith (c # cs) sub then Some 0 else None)"

definition contains :: "string \<Rightarrow> string \<Rightarrow> bool" where
  \<comment> \<open>\<open>sub in s\<close>\<close>
  "contains s sub = (find_first s sub \<noteq> None)"

definition find_from :: "string \<Rightarrow> string \<Rightarrow> nat \<Rightarrow> int" where
  \<comment> \<open>\<open>s.find(sub, start)\<close> for \<open>start \<ge> 0\<close>\<close>
  "find_from s sub start =
     (if length s < start then - 1
      else case find_first (drop start s) sub of
             None \<Rightarrow> - 1
           | Some i \<Rightarrow> int (start + i))"

definition find_py :: "string \<Rightarrow> string \<Rightarrow> int" where
  \<comment> \<open>\<open>s.find(sub)\<close>\<close>
  "find_py s sub = find_from s sub 0"

definition rfind :: "string \<Rightarrow> string \<Rightarrow> int" where
  "rfind s sub = (case find_last s sub of None \<Rightarrow> - 1 | Some i \<Rightarrow> int i)"

definition slice :: "string \<Rightarrow> int \<Rightarrow> int \<Rightarrow> string" where
  \<comment> \<open>\<open>s[start:end]\<close>: a negative bound counts from the end, and both are clamped\<close>
  "slice s start end =
     (let n = int (length s);
          lo = (if start < 0 then max (n + start) 0 else min start n);
          hi = (if end < 0 then max (n + end) 0 else min end n)
      in take (nat (hi - lo)) (drop (nat lo) s))"

definition py_lower_char :: "char \<Rightarrow> char" where
  \<comment> \<open>\<open>str.lower()\<close> on one character: A to Z, and the capital letters 0xC0 to 0xDE\<close>
  "py_lower_char c = (let n = (of_char c :: nat) in
     if (65 \<le> n \<and> n \<le> 90) \<or> (192 \<le> n \<and> n \<le> 222 \<and> n \<noteq> 215)
     then char_of (n + 32) else c)"

definition lower :: "string \<Rightarrow> string" where
  "lower s = map py_lower_char s"

definition py_upper_char :: "char \<Rightarrow> string" where
  \<comment> \<open>\<open>str.upper()\<close> on one character: a to z and the small letters 0xE0 to 0xFE lose
      32, the sharp s becomes SS; the micro sign and the y with diaeresis, whose capitals
      lie above 255, are kept\<close>
  "py_upper_char c = (let n = (of_char c :: nat) in
     if (97 \<le> n \<and> n \<le> 122) \<or> (224 \<le> n \<and> n \<le> 254 \<and> n \<noteq> 247)
     then [char_of (n - 32)]
     else if n = 223 then ''SS'' else [c])"

definition upper :: "string \<Rightarrow> string" where
  "upper s = concat (map py_upper_char s)"

fun join :: "string \<Rightarrow> string list \<Rightarrow> string" where
  "join sep [] = []"
| "join sep [x] = x"
| "join sep (x # y # ys) = x @ sep @ join sep (y # ys)"

function str_of_nat :: "nat \<Rightarrow> string" where
  \<comment> \<open>\<open>str(n)\<close>\<close>
  "str_of_nat n =
     (if n < 10 then [char_of (48 + n)]
      else str_of_nat (n div 10) @ [char_of (48 + n mod 10)])"
  by pat_completeness auto
termination
  by (relation "measure id") auto

section \<open>Exceptions\<close>

datatype py_error =
    ValueError string
  | TypeError
  | AttributeError
  | KeyError
  | RecursionError
  | ServiceError
  | PersistenceError
  | Wrapped string py_error  \<comment> \<open>\<open>Exception(prefix + str(e))\<close>\<close>

section \<open>JSON values and the decoder\<close>

text \<open>
  The values \<open>json.loads\<close> returns. A Python \<open>dict\<close> is an association list with
  unique keys in insertion order; a \<open>float\<close> keeps the text it was read from.

  \<open>json.loads\<close> and \<open>json.dumps\<close> belong to Python's library. The functions of the
  program that call them take them as the arguments \<open>loads\<close> and \<open>dumps\<close>, so that
  what is proved of these functions holds for every decoder and encoder. A call of
  \<open>json.loads\<close> has three outcomes: a value, a \<open>JSONDecodeError\<close>, or another
  exception (a \<open>RecursionError\<close> on a text nested deeper than the interpreter allows, a
  plain \<open>ValueError\<close> on an integer of more than 4300 digits). The decoder
  \<open>json_loads\<close> defined here follows the library's scanner and is the one the sample
  evaluations run.
\<close>

datatype json =
    JNull
  | JBool bool
  | JInt int
  | JFloat string
  | JString string
  | JArray "json list"
  | JObject "(string \<times> json) list"

datatype decoded = Decoded json | JSONDecodeError | DecoderRaised py_error

datatype 'a scanned = Scanned 'a string | Malformed | Raises py_error

definition json_ws :: "char \<Rightarrow> bool" where
  "json_ws c = (c \<in> set [CHR '' '', CHR 0x09, CHR 0x0A, CHR 0x0D])"

definition skip_ws :: "string \<Rightarrow> string" where
  "skip_ws s = dropWhile json_ws s"

definition is_digit :: "char \<Rightarrow> bool" where
  "is_digit c = (c \<in> set ''0123456789'')"

definition digit_val :: "char \<Rightarrow> int" where
  "digit_val c = int (of_char c) - 48"

definition digits_val :: "string \<Rightarrow> int" where
  "digits_val ds = foldl (\<lambda>a c. 10 * a + digit_val c) 0 ds"

definition unescape :: "char \<Rightarrow> char option" where
  "unescape e = map_of
     [(CHR 0x22, CHR 0x22), (CHR 0x5C, CHR 0x5C), (CHR ''/'', CHR ''/''),
      (CHR ''b'', CHR 0x08), (CHR ''f'', CHR 0x0C), (CHR ''n'', CHR 0x0A),
      (CHR ''r'', CHR 0x0D), (CHR ''t'', CHR 0x09)] e"

definition hex_val :: "char \<Rightarrow> nat option" where
  "hex_val h = map_of
     [(CHR ''0'', 0), (CHR ''1'', 1), (CHR ''2'', 2), (CHR ''3'', 3), (CHR ''4'', 4),
      (CHR ''5'', 5), (CHR ''6'', 6), (CHR ''7'', 7), (CHR ''8'', 8), (CHR ''9'', 9),
      (CHR ''a'', 10), (CHR ''b'', 11), (CHR ''c'', 12), (CHR ''d'', 13), (CHR ''e'', 14),
      (CHR ''f'', 15), (CHR ''A'', 10), (CHR ''B'', 11), (CHR ''C'', 12), (CHR ''D'', 13),
      (CHR ''E'', 14), (CHR ''F'', 15)] h"

definition hex4 :: "char \<Rightarrow> char \<Rightarrow> char \<Rightarrow> char \<Rightarrow> nat option" where
  "hex4 h1 h2 h3 h4 =
     (case (hex_val h1, hex_val h2, hex_val h3, hex_val h4) of
        (Some a, Some b, Some c, Some d) \<Rightarrow> Some (((a * 16 + b) * 16 + c) * 16 + d)
      | _ \<Rightarrow> None)"

text \<open>
  The body of a string, after its opening quote. Strings hold code points below 256, so
  a \<open>u\<close>-escape denotes a character of the model only up to \<open>00FF\<close>; a text with a
  higher one is outside the model, and is treated as malformed.
\<close>

fun scan_string :: "string \<Rightarrow> (string \<times> string) option" where
  "scan_string [] = None"
| "scan_string [c] = (if c = CHR 0x22 then Some ([], []) else None)"
| "scan_string (c # e # cs) =
     (if c = CHR 0x22 then Some ([], e # cs)
      else if c = CHR 0x5C then
        (if e = CHR ''u'' then
           (case cs of
              h1 # h2 # h3 # h4 # r \<Rightarrow>
                (case hex4 h1 h2 h3 h4 of
                   None \<Rightarrow> None
                 | Some n \<Rightarrow>
                     if n < 256 then map_option (apfst ((#) (char_of n))) (scan_string r)
                     else None)
            | _ \<Rightarrow> None)
         else case unescape e of
           None \<Rightarrow> None
         | Some d \<Rightarrow> map_option (apfst ((#) d)) (scan_string cs))
      else if (of_char c :: nat) < 32 then None
      else map_option (apfst ((#) c)) (scan_string (e # cs)))"

definition scan_int_part :: "string \<Rightarrow> (string \<times> string) option" where
  \<comment> \<open>\<open>-?(0|[1-9][0-9]*)\<close>\<close>
  "scan_int_part s =
     (let (sgn, r) = (case s of c # r \<Rightarrow> if c = CHR ''-'' then ([c], r) else ([], s) | [] \<Rightarrow> ([], s))
      in case r of
           [] \<Rightarrow> None
         | d # r' \<Rightarrow>
             if d = CHR ''0'' then Some (sgn @ [d], r')
             else if is_digit d then Some (sgn @ d # takeWhile is_digit r', dropWhile is_digit r')
             else None)"

definition scan_frac :: "string \<Rightarrow> string \<times> string" where
  \<comment> \<open>\<open>(\.[0-9]+)?\<close>\<close>
  "scan_frac s =
     (case s of
        c # d # r \<Rightarrow>
          if c = CHR ''.'' \<and> is_digit d
          then (c # d # takeWhile is_digit r, dropWhile is_digit r) else ([], s)
      | _ \<Rightarrow> ([], s))"

definition scan_exp :: "string \<Rightarrow> string \<times> string" where
  \<comment> \<open>\<open>([eE][-+]?[0-9]+)?\<close>\<close>
  "scan_exp s =
     (case s of
        c # r \<Rightarrow>
          if c = CHR ''e'' \<or> c = CHR ''E'' then
            (let (sg, r1) = (case r of x # r' \<Rightarrow>
                               if x = CHR ''+'' \<or> x = CHR ''-'' then ([x], r') else ([], r)
                             | [] \<Rightarrow> ([], r))
             in case r1 of
                  d # r2 \<Rightarrow>
                    if is_digit d
                    then (c # sg @ d # takeWhile is_digit r2, dropWhile is_digit r2)
                    else ([], s)
                | [] \<Rightarrow> ([], s))
          else ([], s)
      | [] \<Rightarrow> ([], s))"

definition max_str_digits :: nat where
  \<comment> \<open>the interpreter's default limit on the digits of an integer read from text\<close>
  "max_str_digits = 4300"

definition int_of_digits :: "bool \<Rightarrow> string \<Rightarrow> py_error + int" where
  \<comment> \<open>\<open>int(text)\<close> on a sign and a run of decimal digits\<close>
  "int_of_digits negative ds =
     (if max_str_digits < length ds
      then Inl (ValueError
                  (''Exceeds the limit (4300 digits) for integer string conversion: value has ''
                   @ str_of_nat (length ds)
                   @ '' digits; use sys.set_int_max_str_digits() to increase the limit''))
      else Inr (if negative then - digits_val ds else digits_val ds))"

definition scan_number :: "string \<Rightarrow> json scanned" where
  "scan_number s =
     (case scan_int_part s of
        None \<Rightarrow> Malformed
      | Some (ip, r) \<Rightarrow>
          (let (fr, r1) = scan_frac r; (ex, r2) = scan_exp r1
           in if fr = [] \<and> ex = []
              then (case (case ip of
                            c # ds \<Rightarrow> if c = CHR ''-'' then int_of_digits True ds
                                      else int_of_digits False ip
                          | [] \<Rightarrow> int_of_digits False []) of
                      Inl e \<Rightarrow> Raises e
                    | Inr n \<Rightarrow> Scanned (JInt n) r2)
              else Scanned (JFloat (ip @ fr @ ex)) r2))"

definition scan_literal :: "string \<Rightarrow> json scanned" where
  \<comment> \<open>what the scanner tries when the text opens neither a string, an object nor an array\<close>
  "scan_literal s =
     (if startswith s ''null'' then Scanned JNull (drop 4 s)
      else if startswith s ''true'' then Scanned (JBool True) (drop 4 s)
      else if startswith s ''false'' then Scanned (JBool False) (drop 5 s)
      else case scan_number s of
             Scanned v r \<Rightarrow> Scanned v r
           | Raises e \<Rightarrow> Raises e
           | Malformed \<Rightarrow>
               if startswith s ''NaN'' then Scanned (JFloat ''NaN'') (drop 3 s)
               else if startswith s ''Infinity'' then Scanned (JFloat ''Infinity'') (drop 8 s)
               else if startswith s ''-Infinity'' then Scanned (JFloat ''-Infinity'') (drop 9 s)
               else Malformed)"

definition dict_of_pairs :: "(string \<times> json) list \<Rightarrow> (string \<times> json) list" where
  \<comment> \<open>\<open>dict(pairs)\<close>: a repeated key keeps its first position and takes the later value\<close>
  "dict_of_pairs kvs = foldl (\<lambda>d (k, v). AList.update k v d) [] kvs"

text \<open>
  The scanner. Its first argument bounds the recursion of the definition; its second is
  the number of arrays and objects that may still be opened inside one another before
  the interpreter's recursion limit is met, where the scanner raises \<open>RecursionError\<close>.
\<close>

fun parse_value :: "nat \<Rightarrow> nat \<Rightarrow> string \<Rightarrow> json scanned"
  and parse_array :: "nat \<Rightarrow> nat \<Rightarrow> string \<Rightarrow> json list scanned"
  and parse_object :: "nat \<Rightarrow> nat \<Rightarrow> string \<Rightarrow> (string \<times> json) list scanned"
where
  "parse_value 0 depth s = Malformed"
| "parse_value (Suc n) depth [] = Malformed"
| "parse_value (Suc n) depth (c # r) =
     (if c = CHR 0x22 then
        (case scan_string r of
           None \<Rightarrow> Malformed
         | Some (s, r') \<Rightarrow> Scanned (JString s) r')
      else if c = CHR ''{'' then
        (case depth of
           0 \<Rightarrow> Raises RecursionError
         | Suc k \<Rightarrow>
             (case skip_ws r of
                [] \<Rightarrow> Malformed
              | d # r' \<Rightarrow>
                  if d = CHR ''}'' then Scanned (JObject []) r'
                  else (case parse_object n k (d # r') of
                          Scanned kvs r'' \<Rightarrow> Scanned (JObject (dict_of_pairs kvs)) r''
                        | Malformed \<Rightarrow> Malformed
                        | Raises e \<Rightarrow> Raises e)))
      else if c = CHR ''['' then
        (case depth of
           0 \<Rightarrow> Raises RecursionError
         | Suc k \<Rightarrow>
             (case skip_ws r of
                [] \<Rightarrow> Malformed
              | d # r' \<Rightarrow>
                  if d = CHR '']'' then Scanned (JArray []) r'
                  else (case parse_array n k (d # r') of
                          Scanned vs r'' \<Rightarrow> Scanned (JArray vs) r''
                        | Malformed \<Rightarrow> Malformed
                        | Raises e \<Rightarrow> Raises e)))
      else scan_literal (c # r))"
| "parse_array 0 depth s = Malformed"
| "parse_array (Suc n) depth s =
     (case parse_value n depth s of
        Malformed \<Rightarrow> Malformed
      | Raises e \<Rightarrow> Raises e
      | Scanned v r \<Rightarrow>
          (case skip_ws r of
             [] \<Rightarrow> Malformed
           | d # r' \<Rightarrow>
               if d = CHR '']'' then Scanned [v] r'
               else if d = CHR '','' then
                 (case parse_array n depth (skip_ws r') of
                    Scanned vs r'' \<Rightarrow> Scanned (v # vs) r''
                  | Malformed \<Rightarrow> Malformed
                  | Raises e \<Rightarrow> Raises e)
               else Malformed))"
| "parse_object 0 depth s = Malformed"
| "parse_object (Suc n) depth [] = Malformed"
| "parse_object (Suc n) depth (q # s) =
     (if q \<noteq> CHR 0x22 then Malformed
      else case scan_string s of
        None \<Rightarrow> Malformed
      | Some (k, r) \<Rightarrow>
          (case skip_ws r of
             [] \<Rightarrow> Malformed
           | col # r0 \<Rightarrow>
               if col \<noteq> CHR '':'' then Malformed
               else case parse_value n depth (skip_ws r0) of
                 Malformed \<Rightarrow> Malformed
               | Raises e \<Rightarrow> Raises e
               | Scanned v r1 \<Rightarrow>
                   (case skip_ws r1 of
                      [] \<Rightarrow> Malformed
                    | d # r' \<Rightarrow>
                        if d = CHR ''}'' then Scanned [(k, v)] r'
                        else if d = CHR '','' then
                          (case parse_object n depth (skip_ws r') of
                             Scanned kvs r'' \<Rightarrow> Scanned ((k, v) # kvs) r''
                           | Malformed \<Rightarrow> Malformed
                           | Raises e \<Rightarrow> Raises e)
                        else Malformed)))"

definition json_loads_within :: "nat \<Rightarrow> string \<Rightarrow> decoded" where
  \<comment> \<open>\<open>json.loads\<close> under an interpreter that lets the decoder open \<open>limit\<close> arrays
      and objects inside one another. The recursion of the definition is bounded by twice
      the length of the text.\<close>
  "json_loads_within limit s =
     (case parse_value (2 * length s + 2) limit (skip_ws s) of
        Malformed \<Rightarrow> JSONDecodeError
      | Raises e \<Rightarrow> DecoderRaised e
      | Scanned v r \<Rightarrow> if skip_ws r = [] then Decoded v else JSONDecodeError)"

definition recursion_limit :: nat where
  \<comment> \<open>the interpreter's default recursion limit\<close>
  "recursion_limit = 1000"

definition json_loads :: "string \<Rightarrow> decoded" where
  \<comment> \<open>the decoder of the sample evaluations: the whole default limit is the decoder's\<close>
  "json_loads = json_loads_within recursion_limit"

section \<open>The generation client: parsing the model's response\<close>

definition fence :: string where
  "fence = ''```''"

definition json_fence :: string where
  "json_fence = ''```json''"

definition extract_json_text :: "string \<Rightarrow> string" where
  \<comment> \<open>the candidate text of \<open>_parse_response\<close>, before \<open>json.loads\<close>\<close>
  "extract_json_text raw =
     (let response_text = strip raw in
      if contains response_text json_fence then
        (let start = find_py response_text json_fence + 7;
             end = find_from response_text fence (nat start)
         in strip (slice response_text start end))
      else if contains response_text fence then
        (let start = find_py response_text fence + 3;
             end = rfind response_text fence
         in strip (slice response_text start end))
      else response_text)"

definition parse_required_fields :: "string list" where
  "parse_required_fields = [''solidity_code'', ''deploy_script'', ''tests'', ''metadata'']"

fun has_field :: "json \<Rightarrow> string \<Rightarrow> py_error + bool" where
  \<comment> \<open>\<open>field in result\<close>: a key of a dict, an element of a list, a substring of a
      string; a \<open>TypeError\<close> on anything else\<close>
  "has_field (JObject kvs) f = Inr (f \<in> set (map fst kvs))"
| "has_field (JArray xs) f = Inr (JString f \<in> set xs)"
| "has_field (JString s) f = Inr (contains s f)"
| "has_field _ f = Inl TypeError"

fun get_item :: "json \<Rightarrow> string \<Rightarrow> py_error + json" where
  \<comment> \<open>\<open>result[key]\<close> with a string key\<close>
  "get_item (JObject kvs) k = (case map_of kvs k of None \<Rightarrow> Inl KeyError | Some v \<Rightarrow> Inr v)"
| "get_item _ k = Inl TypeError"

fun is_dict :: "json \<Rightarrow> bool" where
  "is_dict (JObject kvs) = True"
| "is_dict _ = False"

fun check_required :: "json \<Rightarrow> string list \<Rightarrow> py_error + unit" where
  "check_required result [] = Inr ()"
| "check_required result (f # fs) =
     (case has_field result f of
        Inl e \<Rightarrow> Inl e
      | Inr present \<Rightarrow>
          if \<not> present then Inl (ValueError (''Missing required field: '' @ f))
          else check_required result fs)"

definition validate_result :: "json \<Rightarrow> py_error + json" where
  "validate_result result =
     (case check_required result parse_required_fields of
        Inl e \<Rightarrow> Inl e
      | Inr _ \<Rightarrow>
          (case get_item result ''metadata'' of
             Inl e \<Rightarrow> Inl e
           | Inr metadata \<Rightarrow>
               if \<not> is_dict metadata then Inl (ValueError ''Metadata must be a dictionary'')
               else Inr result))"

definition fallback_solidity_code :: string where
  "fallback_solidity_code = join [CHR 0x0A]
     [''// SPDX-License-Identifier: MIT'',
      ''pragma solidity ^0.8.19;'',
      '''',
      ''/**'',
      '' * @title BasicContract'',
      '' * @dev A basic smart contract template'',
      '' */'',
      ''contract BasicContract {'',
      ''    address public owner;'',
      ''    '',
      ''    constructor() {'',
      ''        owner = msg.sender;'',
      ''    }'',
      ''    '',
      ''    modifier onlyOwner() {'',
      ''        require(msg.sender == owner, \"Not authorized\");'',
      ''        _;'',
      ''    }'',
      ''    '',
      ''    function updateOwner(address newOwner) external onlyOwner {'',
      ''        require(newOwner != address(0), \"Invalid address\");'',
      ''        owner = newOwner;'',
      ''    }'',
      ''}'']"

definition fallback_deploy_script :: string where
  "fallback_deploy_script = join [CHR 0x0A]
     [''const { ethers } = require(\"hardhat\");'',
      '''',
      ''async function main() {'',
      ''    const Contract = await ethers.getContractFactory(\"BasicContract\");'',
      ''    const contract = await Contract.deploy();'',
      ''    await contract.deployed();'',
      ''    console.log(\"Contract deployed to:\", contract.address);'',
      ''}'',
      '''',
      ''main().catch((error) => {'',
      ''    console.error(error);'',
      ''    process.exitCode = 1;'',
      ''});'']"

definition fallback_tests :: string where
  "fallback_tests = join [CHR 0x0A]
     [''const { expect } = require(\"chai\");'',
      '''',
      ''describe(\"BasicContract\", function () {'',
      ''    it(\"Should deploy successfully\", async function () {'',
      ''        const Contract = await ethers.getContractFactory(\"BasicContract\");'',
      ''        const contract = await Contract.deploy();'',
      ''        expect(contract.address).to.not.equal(0);'',
      ''    });'',
      ''});'']"

definition fallback_metadata :: json where
  "fallback_metadata = JObject
     [(''contract_name'', JString ''BasicContract''),
      (''compiler_version'', JString ''^0.8.19''),
      (''optimization'', JBool True),
      (''license'', JString ''MIT''),
      (''description'', JString ''Basic contract template''),
      (''functions'', JArray [JString ''updateOwner'']),
      (''events'', JArray []),
      (''security_features'', JArray [JString ''onlyOwner modifier''])]"

definition create_fallback_response :: json where
  "create_fallback_response = JObject
     [(''solidity_code'', JString fallback_solidity_code),
      (''deploy_script'', JString fallback_deploy_script),
      (''tests'', JString fallback_tests),
      (''metadata'', fallback_metadata)]"

definition parse_response :: "(string \<Rightarrow> decoded) \<Rightarrow> string \<Rightarrow> py_error + json" where
  \<comment> \<open>\<open>GeminiClient._parse_response\<close>; \<open>loads\<close> is \<open>json.loads\<close>. Its
      \<open>JSONDecodeError\<close> goes to the first handler, any other exception it raises to
      the second. \<open>Inl\<close> is the exception the method raises.\<close>
  "parse_response loads response_text =
     (case loads (extract_json_text response_text) of
        JSONDecodeError \<Rightarrow> Inr create_fallback_response
      | DecoderRaised e \<Rightarrow>
          Inl (Wrapped ''Failed to parse contract generation response: '' e)
      | Decoded result \<Rightarrow>
          (case validate_result result of
             Inl e \<Rightarrow> Inl (Wrapped ''Failed to parse contract generation response: '' e)
           | Inr r \<Rightarrow> Inr r))"

definition gemini_generate_contract ::
  "(string \<Rightarrow> decoded) \<Rightarrow> string option \<Rightarrow> py_error + json" where
  \<comment> \<open>\<open>GeminiClient.generate_contract\<close>. The prompt only feeds the external model, whose
      answer is the argument \<open>response\<close>: \<open>None\<close> when the call itself raises.\<close>
  "gemini_generate_contract loads response =
     (case response of
        None \<Rightarrow> Inl (Wrapped ''Contract generation failed: '' ServiceError)
      | Some response_text \<Rightarrow>
          (case parse_response loads response_text of
             Inl e \<Rightarrow> Inl (Wrapped ''Contract generation failed: '' e)
           | Inr result \<Rightarrow> Inr result))"

section \<open>The rule repository and the request validator\<close>

text \<open>
  The rule table is read from a YAML file at start-up; the file is data, so the table is
  a parameter of the validator. A request payload is a dictionary of text fields.
\<close>

record jurisdiction_rules =
  legal_framework :: string
  compliance_rules :: "string list"
  contract_clauses :: "(string \<times> string list) list"
  required_fields :: "string list"

record contract_type_rules =
  required_functions :: "string list"
  security_considerations :: "string list"

record legal_rules =
  jurisdictions :: "(string \<times> jurisdiction_rules) list"
  contract_types :: "(string \<times> contract_type_rules) list"

definition dict_get :: "('k \<times> 'v) list \<Rightarrow> 'k \<Rightarrow> 'v \<Rightarrow> 'v" where
  \<comment> \<open>\<open>d.get(key, default)\<close>\<close>
  "dict_get d k dflt = (case map_of d k of None \<Rightarrow> dflt | Some v \<Rightarrow> v)"

type_synonym payload = "(string \<times> string) list"

definition get :: "payload \<Rightarrow> string \<Rightarrow> string option" where
  \<comment> \<open>\<open>payload.get(key)\<close>\<close>
  "get payload k = map_of payload k"

definition get_or :: "payload \<Rightarrow> string \<Rightarrow> string \<Rightarrow> string" where
  \<comment> \<open>\<open>payload.get(key, default)\<close>\<close>
  "get_or payload k d = (case map_of payload k of None \<Rightarrow> d | Some v \<Rightarrow> v)"

definition truthy :: "string option \<Rightarrow> bool" where
  \<comment> \<open>Python's truth value of an optional string: neither \<open>None\<close> nor empty\<close>
  "truthy v = (case v of None \<Rightarrow> False | Some s \<Rightarrow> s \<noteq> [])"

definition hex_chars :: string where
  "hex_chars = ''0123456789abcdefABCDEF''"

definition is_valid_ethereum_address :: "string \<Rightarrow> bool" where
  "is_valid_ethereum_address address =
     (if address = [] then False
      else startswith address ''0x'' \<and> length address = 42
           \<and> list_all (\<lambda>c. c \<in> set hex_chars) (drop 2 address))"

record validation =
  valid :: bool
  errors :: "string list"
  warnings :: "string list"

definition request_required_fields :: "string list" where
  "request_required_fields = [''jurisdiction'', ''contract_type'', ''requirements'']"

definition address_fields :: "string list" where
  "address_fields = [''payee_address'', ''payer_address'']"

definition missing_errors :: "payload \<Rightarrow> string list" where
  "missing_errors payload =
     concat (map (\<lambda>field. if \<not> truthy (get payload field)
                           then [''Missing required field: '' @ field] else [])
                 request_required_fields)"

definition jurisdiction_errors :: "legal_rules \<Rightarrow> payload \<Rightarrow> string list" where
  "jurisdiction_errors rules payload =
     (let jurisdiction = lower (get_or payload ''jurisdiction'' []);
          valid_jurisdictions = map fst (jurisdictions rules)
      in if jurisdiction \<noteq> [] \<and> jurisdiction \<notin> set valid_jurisdictions
         then [''Invalid jurisdiction. Valid options: '' @ join '', '' valid_jurisdictions]
         else [])"

definition contract_type_errors :: "legal_rules \<Rightarrow> payload \<Rightarrow> string list" where
  "contract_type_errors rules payload =
     (let contract_type = lower (get_or payload ''contract_type'' []);
          valid_types = map fst (contract_types rules)
      in if contract_type \<noteq> [] \<and> contract_type \<notin> set valid_types
         then [''Invalid contract type. Valid options: '' @ join '', '' valid_types]
         else [])"

definition address_warnings :: "payload \<Rightarrow> string list" where
  "address_warnings payload =
     concat (map (\<lambda>addr_field.
                    case get payload addr_field of
                      None \<Rightarrow> []
                    | Some address \<Rightarrow>
                        if address \<noteq> [] \<and> \<not> is_valid_ethereum_address address
                        then [''Invalid Ethereum address format for '' @ addr_field]
                        else [])
                 address_fields)"

definition jurisdiction_field_errors :: "legal_rules \<Rightarrow> payload \<Rightarrow> string list" where
  "jurisdiction_field_errors rules payload =
     (let jurisdiction = lower (get_or payload ''jurisdiction'' [])
      in case map_of (jurisdictions rules) jurisdiction of
           None \<Rightarrow> []
         | Some jurisdiction_rules \<Rightarrow>
             concat (map (\<lambda>field.
                            if \<not> truthy (get payload field)
                            then [''Field '' @ [CHR 0x27] @ field @ [CHR 0x27]
                                  @ '' is required for '' @ upper jurisdiction
                                  @ '' jurisdiction'']
                            else [])
                         (required_fields jurisdiction_rules)))"

definition validate_request :: "legal_rules \<Rightarrow> payload \<Rightarrow> validation" where
  \<comment> \<open>\<open>ContractService.validate_request\<close>: the four groups of errors in the order the
      method appends them\<close>
  "validate_request rules payload =
     (let errs = missing_errors payload @ jurisdiction_errors rules payload
                 @ contract_type_errors rules payload @ jurisdiction_field_errors rules payload
      in \<lparr>valid = (errs = []), errors = errs, warnings = address_warnings payload\<rparr>)"

text \<open>
  The validator above reads a payload whose fields are all texts. The routes hand the
  service whatever the request body decodes to, so a field may hold any JSON value; the
  validator on such a payload follows. It raises where the method calls \<open>lower\<close> or
  \<open>startswith\<close> on a value that is no text. On a payload of texts the two agree.
\<close>

type_synonym json_payload = "(string \<times> json) list"

definition exponent_val :: "string \<Rightarrow> int" where
  \<comment> \<open>the value of an exponent, a run of digits that may carry a sign\<close>
  "exponent_val ex =
     (case ex of
        [] \<Rightarrow> 0
      | c # ds \<Rightarrow>
          if c = CHR ''-'' then - digits_val ds
          else if c = CHR ''+'' then digits_val ds
          else digits_val ex)"

definition float_nonzero :: "string \<Rightarrow> bool" where
  \<comment> \<open>whether the double nearest to a decimal text is not zero: the text denotes
      \<open>m * 10 ^ e\<close>, which rounds to zero exactly when it is at most \<open>2 ^ -1075\<close>\<close>
  "float_nonzero s =
     (if s \<in> {''NaN'', ''Infinity'', ''-Infinity''} then True
      else
        (let body = (case s of c # r \<Rightarrow> if c = CHR ''-'' then r else s | [] \<Rightarrow> s);
             is_e = (\<lambda>c. c = CHR ''e'' \<or> c = CHR ''E'');
             mantissa = takeWhile (\<lambda>c. \<not> is_e c) body;
             ex = drop 1 (dropWhile (\<lambda>c. \<not> is_e c) body);
             whole = takeWhile (\<lambda>c. c \<noteq> CHR ''.'') mantissa;
             frac = drop 1 (dropWhile (\<lambda>c. c \<noteq> CHR ''.'') mantissa);
             m = digits_val (whole @ frac);
             e = exponent_val ex - int (length frac)
         in m \<noteq> 0 \<and> (0 \<le> e \<or> 10 ^ nat (- e) < m * 2 ^ 1075)))"

fun json_truthy :: "json \<Rightarrow> bool" where
  \<comment> \<open>Python's truth value of a decoded value\<close>
  "json_truthy JNull = False"
| "json_truthy (JBool b) = b"
| "json_truthy (JInt n) = (n \<noteq> 0)"
| "json_truthy (JFloat s) = float_nonzero s"
| "json_truthy (JString s) = (s \<noteq> [])"
| "json_truthy (JArray xs) = (xs \<noteq> [])"
| "json_truthy (JObject kvs) = (kvs \<noteq> [])"

definition present :: "json option \<Rightarrow> bool" where
  \<comment> \<open>the truth value of \<open>payload.get(field)\<close>\<close>
  "present v = (case v of None \<Rightarrow> False | Some x \<Rightarrow> json_truthy x)"

fun text_lower :: "json \<Rightarrow> py_error + string" where
  \<comment> \<open>\<open>value.lower()\<close>: only a \<open>str\<close> has the method\<close>
  "text_lower (JString s) = Inr (lower s)"
| "text_lower _ = Inl AttributeError"

definition missing_errors_json :: "json_payload \<Rightarrow> string list" where
  "missing_errors_json payload =
     concat (map (\<lambda>field. if \<not> present (map_of payload field)
                           then [''Missing required field: '' @ field] else [])
                 request_required_fields)"

definition membership_errors :: "string \<Rightarrow> string \<Rightarrow> string list \<Rightarrow> string list" where
  \<comment> \<open>the check of a lower-cased key against the keys of a rule table\<close>
  "membership_errors message key keys =
     (if key \<noteq> [] \<and> key \<notin> set keys then [message @ join '', '' keys] else [])"

fun address_warning :: "string \<Rightarrow> json option \<Rightarrow> py_error + string list" where
  \<comment> \<open>one round of the address loop: \<open>address.startswith\<close> raises on a value that is
      true and no \<open>str\<close>\<close>
  "address_warning addr_field None = Inr []"
| "address_warning addr_field (Some (JString address)) =
     Inr (if address \<noteq> [] \<and> \<not> is_valid_ethereum_address address
          then [''Invalid Ethereum address format for '' @ addr_field] else [])"
| "address_warning addr_field (Some v) =
     (if json_truthy v then Inl AttributeError else Inr [])"

definition address_warnings_json :: "json_payload \<Rightarrow> py_error + string list" where
  "address_warnings_json payload =
     (case address_warning ''payee_address'' (map_of payload ''payee_address'') of
        Inl e \<Rightarrow> Inl e
      | Inr w1 \<Rightarrow>
          (case address_warning ''payer_address'' (map_of payload ''payer_address'') of
             Inl e \<Rightarrow> Inl e
           | Inr w2 \<Rightarrow> Inr (w1 @ w2)))"

definition field_errors_json :: "legal_rules \<Rightarrow> string \<Rightarrow> json_payload \<Rightarrow> string list" where
  "field_errors_json rules jur payload =
     (case map_of (jurisdictions rules) jur of
        None \<Rightarrow> []
      | Some jurisdiction_rules \<Rightarrow>
          concat (map (\<lambda>field.
                         if \<not> present (map_of payload field)
                         then [''Field '' @ [CHR 0x27] @ field @ [CHR 0x27]
                               @ '' is required for '' @ upper jur
                               @ '' jurisdiction'']
                         else [])
                      (required_fields jurisdiction_rules)))"

definition validate_request_json :: "legal_rules \<Rightarrow> json_payload \<Rightarrow> py_error + validation" where
  \<comment> \<open>\<open>ContractService.validate_request\<close> on a payload of any decoded values; \<open>Inl\<close> is
      the exception the method raises\<close>
  "validate_request_json rules payload =
     (case text_lower (dict_get payload ''jurisdiction'' (JString [])) of
        Inl e \<Rightarrow> Inl e
      | Inr jur \<Rightarrow>
          (case text_lower (dict_get payload ''contract_type'' (JString [])) of
             Inl e \<Rightarrow> Inl e
           | Inr ctype \<Rightarrow>
               (case address_warnings_json payload of
                  Inl e \<Rightarrow> Inl e
                | Inr warns \<Rightarrow>
                    (let errs =
                           missing_errors_json payload
                           @ membership_errors ''Invalid jurisdiction. Valid options: ''
                               jur (map fst (jurisdictions rules))
                           @ membership_errors ''Invalid contract type. Valid options: ''
                               ctype (map fst (contract_types rules))
                           @ field_errors_json rules jur payload
                     in Inr \<lparr>valid = (errs = []), errors = errs, warnings = warns\<rparr>))))"

definition as_json :: "payload \<Rightarrow> json_payload" where
  \<comment> \<open>a payload of texts among the payloads of decoded values\<close>
  "as_json payload = map (\<lambda>(k, v). (k, JString v)) payload"

section \<open>Contract records and the store\<close>

record contract =
  cid :: int
  jurisdiction :: "string option"
  contract_type :: "string option"
  requirements :: "string option"
  description :: "string option"
  payee_address :: "string option"
  payer_address :: "string option"
  solidity_code :: json
  deploy_script :: json
  tests :: json
  contract_metadata :: "string option"
  status :: string
  transaction_hash :: "string option"
  contract_address :: "string option"
  created_at :: nat
  updated_at :: nat

text \<open>
  The table of contracts, keyed by the primary key, with the next key the store will
  assign. A flag \<open>db_ok\<close> on each operation says whether the storage calls of that
  operation return; when they raise, the operation rolls back.
\<close>

record db =
  rows :: "int \<Rightarrow> contract option"
  next_id :: int

definition empty_db :: db where
  "empty_db = \<lparr>rows = (\<lambda>_. None), next_id = 1\<rparr>"

definition new_contract ::
  "int \<Rightarrow> nat \<Rightarrow> payload \<Rightarrow> json \<Rightarrow> json \<Rightarrow> json \<Rightarrow> string \<Rightarrow> contract" where
  \<comment> \<open>the \<open>Contract(...)\<close> that \<open>generate_contract\<close> builds, with the key and the
      timestamps the store gives it; hash and address are columns left unset\<close>
  "new_contract i now payload code script tsts metadata_text =
     \<lparr>cid = i,
      jurisdiction = get payload ''jurisdiction'',
      contract_type = get payload ''contract_type'',
      requirements = get payload ''requirements'',
      description = get payload ''description'',
      payee_address = get payload ''payee_address'',
      payer_address = get payload ''payer_address'',
      solidity_code = code,
      deploy_script = script,
      tests = tsts,
      contract_metadata = Some metadata_text,
      status = ''draft'',
      transaction_hash = None,
      contract_address = None,
      created_at = now,
      updated_at = now\<rparr>"

definition generate_contract ::
  "legal_rules \<Rightarrow> (string \<Rightarrow> decoded) \<Rightarrow> (json \<Rightarrow> string) \<Rightarrow> nat \<Rightarrow> bool
     \<Rightarrow> string option \<Rightarrow> db \<Rightarrow> payload \<Rightarrow> (py_error + contract) \<times> db" where
  \<comment> \<open>\<open>ContractService.generate_contract\<close>; \<open>dumps\<close> is \<open>json.dumps\<close>\<close>
  "generate_contract rules loads dumps now db_ok response d payload =
     (let validation = validate_request rules payload in
      if \<not> valid validation
      then (Inl (ValueError (''Validation failed: '' @ join '', '' (errors validation))), d)
      else
        case gemini_generate_contract loads response of
          Inl e \<Rightarrow> (Inl (Wrapped ''Failed to generate contract: '' e), d)
        | Inr result \<Rightarrow>
            (case (get_item result ''solidity_code'', get_item result ''deploy_script'',
                   get_item result ''tests'', get_item result ''metadata'') of
               (Inr code, Inr script, Inr tsts, Inr metadata) \<Rightarrow>
                 if \<not> db_ok
                 then (Inl (Wrapped ''Failed to generate contract: '' PersistenceError), d)
                 else
                   (let c = new_contract (next_id d) now payload code script tsts
                              (dumps metadata)
                    in (Inr c, d\<lparr>rows := (rows d)(next_id d := Some c),
                                   next_id := next_id d + 1\<rparr>))
             | _ \<Rightarrow> (Inl (Wrapped ''Failed to generate contract: '' KeyError), d)))"

definition get_contract :: "bool \<Rightarrow> db \<Rightarrow> int \<Rightarrow> contract option" where
  "get_contract db_ok d contract_id = (if db_ok then rows d contract_id else None)"

definition update_contract_status ::
  "nat \<Rightarrow> bool \<Rightarrow> db \<Rightarrow> int \<Rightarrow> string \<Rightarrow> string option \<Rightarrow> string option \<Rightarrow> bool \<times> db" where
  \<comment> \<open>\<open>ContractService.update_contract_status\<close>. The column \<open>updated_at\<close> is refreshed
      when the commit writes a changed row.\<close>
  "update_contract_status now db_ok d contract_id new_status tx_hash address =
     (if \<not> db_ok then (False, d)
      else case rows d contract_id of
        None \<Rightarrow> (False, d)
      | Some c \<Rightarrow>
          (let c1 = c\<lparr>status := new_status\<rparr>;
               c2 = (if truthy tx_hash then c1\<lparr>transaction_hash := tx_hash\<rparr> else c1);
               c3 = (if truthy address then c2\<lparr>contract_address := address\<rparr> else c2);
               c4 = (if c3 = c then c3 else c3\<lparr>updated_at := now\<rparr>)
           in (True, d\<lparr>rows := (rows d)(contract_id := Some c4)\<rparr>)))"

record deployment_data =
  d_contract_id :: int
  d_solidity_code :: json
  d_deploy_script :: json
  d_constructor_params :: "string list"
  d_metadata :: json
  d_estimated_gas :: int
  d_contract_name :: json

definition get_deployment_data ::
  "(string \<Rightarrow> decoded) \<Rightarrow> bool \<Rightarrow> db \<Rightarrow> int \<Rightarrow> deployment_data option" where
  \<comment> \<open>\<open>ContractService.get_deployment_data\<close>: every exception inside the \<open>try\<close> ends in
      \<open>return None\<close>, the \<open>JSONDecodeError\<close> of \<open>json.loads\<close> and the
      \<open>AttributeError\<close> of \<open>metadata.get\<close> on a value that is no dict among them\<close>
  "get_deployment_data loads db_ok d contract_id =
     (case get_contract db_ok d contract_id of
        None \<Rightarrow> None
      | Some c \<Rightarrow>
          (case (if truthy (contract_metadata c)
                 then loads (the (contract_metadata c)) else Decoded (JObject [])) of
             JSONDecodeError \<Rightarrow> None
           | DecoderRaised e \<Rightarrow> None
           | Decoded metadata \<Rightarrow>
               (let constructor_params =
                      (if truthy (payee_address c) then [the (payee_address c)] else [])
                      @ (if truthy (payer_address c) then [the (payer_address c)] else [])
                in case metadata of
                     JObject kvs \<Rightarrow>
                       Some \<lparr>d_contract_id = cid c,
                             d_solidity_code = solidity_code c,
                             d_deploy_script = deploy_script c,
                             d_constructor_params = constructor_params,
                             d_metadata = metadata,
                             d_estimated_gas = 2000000,
                             d_contract_name =
                               (case map_of kvs ''contract_name'' of
                                  None \<Rightarrow> JString ''GeneratedContract''
                                | Some n \<Rightarrow> n)\<rparr>
                   | _ \<Rightarrow> None)))"

section \<open>The routes\<close>

datatype 'a response = Success nat 'a | Failure nat string

definition valid_statuses :: "string list" where
  "valid_statuses = [''draft'', ''deployed'', ''failed'']"

definition update_contract_status_route ::
  "nat \<Rightarrow> bool \<Rightarrow> db \<Rightarrow> int \<Rightarrow> payload option \<Rightarrow> string response \<times> db" where
  \<comment> \<open>\<open>PUT /contracts/<id>/status\<close>; the body is \<open>None\<close> when the request is not JSON\<close>
  "update_contract_status_route now db_ok d contract_id body =
     (case body of
        None \<Rightarrow> (Failure 400 ''Request must be JSON'', d)
      | Some payload \<Rightarrow>
          (let st = get payload ''status'' in
           if \<not> truthy st then (Failure 400 ''Status is required'', d)
           else if the st \<notin> set valid_statuses
           then (Failure 400 (''Invalid status. Valid options: '' @ join '', '' valid_statuses), d)
           else
             (let (success, d') = update_contract_status now db_ok d contract_id (the st)
                                    (get payload ''transaction_hash'')
                                    (get payload ''contract_address'')
              in if \<not> success then (Failure 404 ''Contract not found or update failed'', d')
                 else (Success 200 ''Contract status updated successfully'', d'))))"

definition confirm_deployment ::
  "nat \<Rightarrow> bool \<Rightarrow> db \<Rightarrow> int \<Rightarrow> payload option \<Rightarrow> string response \<times> db" where
  \<comment> \<open>\<open>POST /deploy/<id>/confirm\<close>\<close>
  "confirm_deployment now db_ok d contract_id body =
     (case body of
        None \<Rightarrow> (Failure 400 ''Request must be JSON'', d)
      | Some payload \<Rightarrow>
          (let tx_hash = get payload ''transaction_hash'';
               address = get payload ''contract_address'' in
           if \<not> truthy tx_hash then (Failure 400 ''Transaction hash is required'', d)
           else
             (let (success, d') = update_contract_status now db_ok d contract_id ''deployed''
                                    tx_hash address
              in if \<not> success then (Failure 404 ''Contract not found or update failed'', d')
                 else (Success 200 ''Deployment confirmed successfully'', d'))))"

definition gas_estimates :: "(string \<times> (string \<times> int) list) list" where
  "gas_estimates =
     [(''escrow'', [(''base'', 1500000), (''india'', 1600000), (''eu'', 1700000),
                    (''us'', 1650000)]),
      (''insurance'', [(''base'', 2000000), (''india'', 2100000), (''eu'', 2200000),
                       (''us'', 2150000)]),
      (''settlement'', [(''base'', 1800000), (''india'', 1900000), (''eu'', 2000000),
                        (''us'', 1950000)])]"

definition resolve_gas :: "string \<Rightarrow> string \<Rightarrow> int" where
  \<comment> \<open>the two look-ups of \<open>estimate_gas\<close>, on the lower-cased keys\<close>
  "resolve_gas ctype jur =
     (let base_gas = dict_get (dict_get gas_estimates ctype []) ''base'' 1500000
      in dict_get (dict_get gas_estimates ctype []) jur base_gas)"

definition estimate_gas :: "payload option \<Rightarrow> int response" where
  \<comment> \<open>\<open>POST /deploy/estimate-gas\<close>\<close>
  "estimate_gas body =
     (case body of
        None \<Rightarrow> Failure 400 ''Request must be JSON''
      | Some payload \<Rightarrow>
          (let contract_type = lower (get_or payload ''contract_type'' []);
               jurisdiction = lower (get_or payload ''jurisdiction'' [])
           in Success 200 (resolve_gas contract_type jurisdiction)))"

section \<open>Predicates taken from the specification\<close>

text \<open>
  The structure the specification asks of a parsed response: all four top-level fields,
  and a key/value object under \<open>metadata\<close>. A value that is not an object has no fields.
\<close>

fun has_all_fields :: "json \<Rightarrow> bool" where
  "has_all_fields (JObject kvs) =
     list_all (\<lambda>f. f \<in> set (map fst kvs))
       [''solidity_code'', ''deploy_script'', ''tests'', ''metadata'']"
| "has_all_fields _ = False"

fun metadata_is_object :: "json \<Rightarrow> bool" where
  "metadata_is_object (JObject kvs) =
     (case map_of kvs ''metadata'' of Some (JObject m) \<Rightarrow> True | _ \<Rightarrow> False)"
| "metadata_is_object _ = False"

text \<open>
  The address shape of the specification: \<open>0x\<close>, then 40 hexadecimal digits of either
  case, 42 characters in all.
\<close>

definition is_hex_digit :: "char \<Rightarrow> bool" where
  "is_hex_digit c = (let n = (of_char c :: nat) in
     (48 \<le> n \<and> n \<le> 57) \<or> (97 \<le> n \<and> n \<le> 102) \<or> (65 \<le> n \<and> n \<le> 70))"

definition address_shape :: "string \<Rightarrow> bool" where
  "address_shape a =
     (take 2 a = ''0x'' \<and> length a = 42 \<and> length (drop 2 a) = 40
      \<and> list_all is_hex_digit (drop 2 a))"

section \<open>Sample data\<close>

definition sample_contract :: contract where
  \<comment> \<open>a record as generation leaves it\<close>
  "sample_contract =
     new_contract 1 0
       [(''jurisdiction'', ''india''), (''contract_type'', ''escrow''),
        (''requirements'', ''test'')]
       (JString ''code'') (JString ''script'') (JString ''tests'') ''{}''"

definition sample_db :: db where
  "sample_db = \<lparr>rows = (\<lambda>_. None)(1 := Some sample_contract), next_id = 2\<rparr>"

definition deployed_db :: db where
  \<comment> \<open>the sample record after a confirmed deployment\<close>
  "deployed_db =
     \<lparr>rows = (\<lambda>_. None)
        (1 := Some (sample_contract\<lparr>status := ''deployed'',
                                    transaction_hash := Some ''0xabc''\<rparr>)),
      next_id = 2\<rparr>"

definition sample_rules :: legal_rules where
  "sample_rules =
     \<lparr>jurisdictions =
        [(''india'', \<lparr>legal_framework = ''Indian Contract Act, 1872'', compliance_rules = [],
                      contract_clauses = [], required_fields = [''requirements'']\<rparr>)],
      contract_types =
        [(''escrow'', \<lparr>required_functions = [], security_considerations = []\<rparr>)]\<rparr>"

definition sample_artifact_text :: string where
  "sample_artifact_text =
     [CHR 0x0A] @ ''{\"solidity_code\": \"a\", \"deploy_script\": \"b\", \"tests\": \"c\", \"metadata\": {\"contract_name\": \"X\"}}'' @ [CHR 0x0A]"

definition artifact_quoting_fence :: string where
  "artifact_quoting_fence =
     ''{\"solidity_code\": \"a\", \"deploy_script\": \"b\", \"tests\": \"c\", \"metadata\": {\"description\": \"```json{}```\"}}''"

definition broken_metadata_db :: db where
  \<comment> \<open>the sample record with a metadata column that is no JSON text\<close>
  "broken_metadata_db =
     \<lparr>rows = (\<lambda>_. None)(1 := Some (sample_contract\<lparr>contract_metadata := Some ''{broken''\<rparr>)),
      next_id = 2\<rparr>"




section \<open>Runs of requests\<close>

text \<open>
  The requests that create or change a record, each with the time of the call and
  whether its storage calls return. A generation carries the text the external model
  answers with, or \<open>None\<close> when the call to the model fails.
\<close>

datatype request =
    Generate payload "string option"
  | UpdateStatus int "payload option"
  | ConfirmDeployment int "payload option"

type_synonym call = "request \<times> nat \<times> bool"

fun step ::
  "legal_rules \<Rightarrow> (string \<Rightarrow> decoded) \<Rightarrow> (json \<Rightarrow> string) \<Rightarrow> db \<Rightarrow> call \<Rightarrow> db" where
  "step rules loads dumps d (Generate payload response, now, db_ok) =
     snd (generate_contract rules loads dumps now db_ok response d payload)"
| "step rules loads dumps d (UpdateStatus i body, now, db_ok) =
     snd (update_contract_status_route now db_ok d i body)"
| "step rules loads dumps d (ConfirmDeployment i body, now, db_ok) =
     snd (confirm_deployment now db_ok d i body)"

definition run ::
  "legal_rules \<Rightarrow> (string \<Rightarrow> decoded) \<Rightarrow> (json \<Rightarrow> string) \<Rightarrow> db \<Rightarrow> call list \<Rightarrow> db" where
  "run rules loads dumps d calls = foldl (step rules loads dumps) d calls"

text \<open>
  \<open>supplies field call i v\<close>: the call is a status update or a deployment confirmation
  addressed to record \<open>i\<close> whose body gives the non-empty value \<open>v\<close> for the field.
\<close>

fun supplies :: "string \<Rightarrow> call \<Rightarrow> int \<Rightarrow> string \<Rightarrow> bool" where
  "supplies field (UpdateStatus i (Some payload), now, db_ok) j v =
     (i = j \<and> v \<noteq> [] \<and> get payload field = Some v)"
| "supplies field (ConfirmDeployment i (Some payload), now, db_ok) j v =
     (i = j \<and> v \<noteq> [] \<and> get payload field = Some v)"
| "supplies field _ j v = False"

definition supplied :: "call list \<Rightarrow> db \<Rightarrow> bool" where
  "supplied calls d =
     (\<forall>i c. rows d i = Some c \<longrightarrow>
        (\<forall>h. transaction_hash c = Some h \<longrightarrow>
               (\<exists>cl \<in> set calls. supplies ''transaction_hash'' cl i h))
        \<and> (\<forall>a. contract_address c = Some a \<longrightarrow>
               (\<exists>cl \<in> set calls. supplies ''contract_address'' cl i a)))"

definition no_hash_or_address :: "db \<Rightarrow> bool" where
  "no_hash_or_address d =
     (\<forall>i c. rows d i = Some c \<longrightarrow> transaction_hash c = None \<and> contract_address c = None)"

definition sample_dumps :: "json \<Rightarrow> string" where
  \<comment> \<open>stands for \<open>json.dumps\<close> in the sample run, which never reads the metadata column\<close>
  "sample_dumps v = ''{}''"

definition sample_payload :: payload where
  "sample_payload =
     [(''jurisdiction'', ''india''), (''contract_type'', ''escrow''), (''requirements'', ''test'')]"

definition sample_calls :: "call list" where
  \<comment> \<open>a generation whose model answer is no JSON, then a status update that keeps the
      record in draft and supplies a transaction hash\<close>
  "sample_calls =
     [(Generate sample_payload (Some ''I cannot help with that.''), 1, True),
      (UpdateStatus 1 (Some [(''status'', ''draft''), (''transaction_hash'', ''0xabc'')]),
       2, True)]"

text \<open>Every status stored is one of the three the routes recognize.\<close>

definition recognized_statuses :: "db \<Rightarrow> bool" where
  "recognized_statuses d = (\<forall>i c. rows d i = Some c \<longrightarrow> status c \<in> set valid_statuses)"

definition pending_calls :: "call list" where
  \<comment> \<open>the sample run, then a status update with a value that is no status\<close>
  "pending_calls =
     sample_calls @ [(UpdateStatus 1 (Some [(''status'', ''pending'')]), 3, True)]"

section \<open>The response parser\<close>




lemma validate_result_object:
  "validate_result (JObject kvs) = Inr r
   \<Longrightarrow> has_all_fields (JObject kvs) \<and> metadata_is_object (JObject kvs)"
  by (auto simp: validate_result_def parse_required_fields_def
      split: if_splits sum.splits option.splits json.splits)

lemma validate_result_Inr:
  "validate_result v = Inr r \<Longrightarrow> has_all_fields v \<and> metadata_is_object v"
proof (cases v)
  case (JObject kvs)
  assume "validate_result v = Inr r"
  with JObject show ?thesis using validate_result_object by blast
qed (auto simp: validate_result_def parse_required_fields_def split: if_splits sum.splits)

text \<open>
  C3. When the candidate text decodes to a value that lacks one of the four top-level
  fields, or whose \<open>metadata\<close> is not a key/value object, \<open>_parse_response\<close> raises
  the wrapped parse error; it does not return the fallback artifact (or anything else).
\<close>

theorem parse_response_hard_failure:
  assumes "loads (extract_json_text raw) = Decoded v"
      and "\<not> has_all_fields v \<or> \<not> metadata_is_object v"
  shows "\<exists>e. parse_response loads raw
              = Inl (Wrapped ''Failed to parse contract generation response: '' e)"
proof (cases "validate_result v")
  case (Inl e)
  with assms(1) show ?thesis by (simp add: parse_response_def)
next
  case (Inr r)
  from validate_result_Inr [OF Inr] assms(2) show ?thesis by blast
qed

lemma sample_text_without_metadata:
  "json_loads (extract_json_text
     ''{\"solidity_code\": \"\", \"deploy_script\": \"\", \"tests\": \"\"}'')
   = Decoded (JObject [(''solidity_code'', JString []), (''deploy_script'', JString []),
                       (''tests'', JString [])])"
  by code_simp

theorem parse_response_hard_failure_witness:
  "json_loads (extract_json_text
     ''{\"solidity_code\": \"\", \"deploy_script\": \"\", \"tests\": \"\"}'')
   = Decoded (JObject [(''solidity_code'', JString []), (''deploy_script'', JString []),
                       (''tests'', JString [])])
   \<and> \<not> has_all_fields (JObject [(''solidity_code'', JString []),
                                   (''deploy_script'', JString []), (''tests'', JString [])])
   \<and> (\<exists>e. parse_response json_loads
              ''{\"solidity_code\": \"\", \"deploy_script\": \"\", \"tests\": \"\"}''
            = Inl (Wrapped ''Failed to parse contract generation response: '' e))"
  using parse_response_hard_failure
          [of json_loads "''{\"solidity_code\": \"\", \"deploy_script\": \"\", \"tests\": \"\"}''"
              "JObject [(''solidity_code'', JString []), (''deploy_script'', JString []),
                        (''tests'', JString [])]"]
    sample_text_without_metadata
  by simp

section \<open>Gas estimation\<close>

text \<open>
  C5, as the code has it. \<open>estimate_gas\<close> lower-cases both keys and resolves them in
  the two-level table: \<open>insurance\<close> with \<open>eu\<close> gives 2,200,000; a contract type that is
  no key of the table gives 1,500,000 whatever the jurisdiction; a known contract type
  with a jurisdiction that is no key under it gives that type's own base (1,500,000 for
  escrow, 2,000,000 for insurance, 1,800,000 for settlement); a known pair gives its
  entry.
\<close>

theorem estimate_gas_table:
  "estimate_gas (Some payload)
     = Success 200 (resolve_gas (lower (get_or payload ''contract_type'' []))
                                (lower (get_or payload ''jurisdiction'' [])))
   \<and> estimate_gas (Some [(''contract_type'', ''insurance''), (''jurisdiction'', ''eu'')])
       = Success 200 2200000
   \<and> (ct \<notin> {''escrow'', ''insurance'', ''settlement''} \<longrightarrow> resolve_gas ct j = 1500000)
   \<and> (j \<notin> {''base'', ''india'', ''eu'', ''us''} \<longrightarrow>
        resolve_gas ''escrow'' j = 1500000
        \<and> resolve_gas ''insurance'' j = 2000000
        \<and> resolve_gas ''settlement'' j = 1800000)
   \<and> resolve_gas ''escrow'' ''india'' = 1600000 \<and> resolve_gas ''escrow'' ''eu'' = 1700000
   \<and> resolve_gas ''escrow'' ''us'' = 1650000
   \<and> resolve_gas ''insurance'' ''india'' = 2100000 \<and> resolve_gas ''insurance'' ''eu'' = 2200000
   \<and> resolve_gas ''insurance'' ''us'' = 2150000
   \<and> resolve_gas ''settlement'' ''india'' = 1900000 \<and> resolve_gas ''settlement'' ''eu'' = 2000000
   \<and> resolve_gas ''settlement'' ''us'' = 1950000"
proof -
  have a: "estimate_gas (Some payload)
     = Success 200 (resolve_gas (lower (get_or payload ''contract_type'' []))
                                (lower (get_or payload ''jurisdiction'' [])))"
    by (simp add: estimate_gas_def)
  have b: "estimate_gas (Some [(''contract_type'', ''insurance''), (''jurisdiction'', ''eu'')])
       = Success 200 2200000"
    by code_simp
  have c: "ct \<notin> {''escrow'', ''insurance'', ''settlement''} \<longrightarrow> resolve_gas ct j = 1500000"
    by (simp add: resolve_gas_def dict_get_def gas_estimates_def)
  have d: "j \<notin> {''base'', ''india'', ''eu'', ''us''} \<longrightarrow>
        resolve_gas ''escrow'' j = 1500000
        \<and> resolve_gas ''insurance'' j = 2000000
        \<and> resolve_gas ''settlement'' j = 1800000"
    by (simp add: resolve_gas_def dict_get_def gas_estimates_def)
  have e: "resolve_gas ''escrow'' ''india'' = 1600000 \<and> resolve_gas ''escrow'' ''eu'' = 1700000
   \<and> resolve_gas ''escrow'' ''us'' = 1650000
   \<and> resolve_gas ''insurance'' ''india'' = 2100000 \<and> resolve_gas ''insurance'' ''eu'' = 2200000
   \<and> resolve_gas ''insurance'' ''us'' = 2150000
   \<and> resolve_gas ''settlement'' ''india'' = 1900000 \<and> resolve_gas ''settlement'' ''eu'' = 2000000
   \<and> resolve_gas ''settlement'' ''us'' = 1950000"
    by (simp add: resolve_gas_def dict_get_def gas_estimates_def)
  from a b c d e show ?thesis by blast
qed

theorem estimate_gas_table_witness:
  "''lease'' \<notin> {''escrow'', ''insurance'', ''settlement''}
   \<and> ''mars'' \<notin> {''base'', ''india'', ''eu'', ''us''}
   \<and> resolve_gas ''lease'' ''mars'' = 1500000
   \<and> resolve_gas ''settlement'' ''mars'' = 1800000"
  using estimate_gas_table [of "[]" "''lease''" "''mars''"] by simp

text \<open>
  The claim as stated fails: \<open>mars\<close> is no key under \<open>insurance\<close>, and the estimate is
  the insurance base of 2,000,000, not the escrow base of 1,500,000.
\<close>

theorem estimate_gas_unknown_jurisdiction_counterexample:
  "''mars'' \<notin> set (map fst (dict_get gas_estimates ''insurance'' []))
   \<and> estimate_gas (Some [(''contract_type'', ''insurance''), (''jurisdiction'', ''mars'')])
       = Success 200 2000000
   \<and> estimate_gas (Some [(''contract_type'', ''insurance''), (''jurisdiction'', ''mars'')])
       \<noteq> Success 200 1500000"
  by code_simp

section \<open>Status updates\<close>

text \<open>
  C10. A status update that succeeds on an existing record leaves the stored transaction
  hash as it was when no hash, or an empty one, is supplied, and likewise the contract
  address; a stored value is never cleared; the record differs from the old one in no
  field other than status, transaction hash, contract address and the update timestamp;
  no other record changes.
\<close>

theorem status_update_frame:
  assumes "update_contract_status now db_ok d i st tx addr = (True, d')"
      and "rows d i = Some c"
  shows "\<exists>c'. rows d' i = Some c'
          \<and> (\<not> truthy tx \<longrightarrow> transaction_hash c' = transaction_hash c)
          \<and> (\<not> truthy addr \<longrightarrow> contract_address c' = contract_address c)
          \<and> (truthy (transaction_hash c) \<longrightarrow> truthy (transaction_hash c'))
          \<and> (truthy (contract_address c) \<longrightarrow> truthy (contract_address c'))
          \<and> c' = c\<lparr>status := status c', transaction_hash := transaction_hash c',
                    contract_address := contract_address c', updated_at := updated_at c'\<rparr>
          \<and> (\<forall>j. j \<noteq> i \<longrightarrow> rows d' j = rows d j)
          \<and> next_id d' = next_id d"
  using assms
  by (auto simp: update_contract_status_def Let_def split: if_splits)

lemma sample_update_succeeds:
  "update_contract_status 9 True deployed_db 1 ''failed'' (Some []) None
   = (True, snd (update_contract_status 9 True deployed_db 1 ''failed'' (Some []) None))"
  by (simp add: update_contract_status_def deployed_db_def Let_def)

theorem status_update_frame_witness:
  "update_contract_status 9 True deployed_db 1 ''failed'' (Some []) None
     = (True, snd (update_contract_status 9 True deployed_db 1 ''failed'' (Some []) None))
   \<and> rows deployed_db 1
       = Some (sample_contract\<lparr>status := ''deployed'', transaction_hash := Some ''0xabc''\<rparr>)
   \<and> (\<exists>c'. rows (snd (update_contract_status 9 True deployed_db 1 ''failed'' (Some []) None)) 1
              = Some c'
            \<and> transaction_hash c' = Some ''0xabc'' \<and> status c' = ''failed'')"
proof -
  have r: "rows deployed_db 1
           = Some (sample_contract\<lparr>status := ''deployed'', transaction_hash := Some ''0xabc''\<rparr>)"
    by (simp add: deployed_db_def)
  have t: "\<not> truthy (Some [])"
    by (simp add: truthy_def)
  have s: "\<And>c'. rows (snd (update_contract_status 9 True deployed_db 1 ''failed''
                              (Some []) None)) 1 = Some c'
           \<Longrightarrow> status c' = ''failed''"
    by (simp add: update_contract_status_def deployed_db_def Let_def truthy_def
        sample_contract_def new_contract_def split: if_splits)
  from status_update_frame [OF sample_update_succeeds r] t s sample_update_succeeds r
  show ?thesis by auto
qed

section \<open>The request validator\<close>

lemma hex_chars_codes:
  "map (of_char :: char \<Rightarrow> nat) hex_chars
   = [48, 49, 50, 51, 52, 53, 54, 55, 56, 57, 97, 98, 99, 100, 101, 102, 65, 66, 67, 68, 69, 70]"
  by (simp add: hex_chars_def)

lemma is_hex_digit_iff: "is_hex_digit c = (c \<in> set hex_chars)"
proof -
  have "c \<in> set hex_chars \<longleftrightarrow> (of_char c :: nat) \<in> of_char ` set hex_chars"
    by (auto simp: inj_image_mem_iff inj_def)
  also have "\<dots> \<longleftrightarrow> (of_char c :: nat) \<in> set (map of_char hex_chars)"
    by simp
  also have "\<dots> \<longleftrightarrow> is_hex_digit c"
    unfolding hex_chars_codes is_hex_digit_def Let_def by (simp; arith)
  finally show ?thesis by simp
qed

lemma is_valid_ethereum_address_shape: "is_valid_ethereum_address a = address_shape a"
proof -
  have two: "length ''0x'' = 2" by simp
  show ?thesis
    unfolding is_valid_ethereum_address_def address_shape_def startswith_def two
    by (auto simp: list_all_iff is_hex_digit_iff)
qed

lemma truthy_get_cons:
  "get p f = Some a \<Longrightarrow> a \<noteq> [] \<Longrightarrow> a' \<noteq> [] \<Longrightarrow> truthy (get ((f, a') # p) g) = truthy (get p g)"
  by (simp add: get_def truthy_def)

lemma get_or_cons_other: "g \<noteq> f \<Longrightarrow> get_or ((f, a') # p) g d = get_or p g d"
  by (simp add: get_or_def)

lemma missing_errors_cons:
  assumes "get p f = Some a" "a \<noteq> []" "a' \<noteq> []"
  shows "missing_errors ((f, a') # p) = missing_errors p"
proof -
  have t: "\<And>g. truthy (get ((f, a') # p) g) = truthy (get p g)"
    using assms truthy_get_cons by blast
  show ?thesis
    by (simp add: missing_errors_def t)
qed

lemma jurisdiction_field_errors_cons:
  assumes "get p f = Some a" "a \<noteq> []" "a' \<noteq> []" "f \<noteq> ''jurisdiction''"
  shows "jurisdiction_field_errors rules ((f, a') # p) = jurisdiction_field_errors rules p"
proof -
  have t: "\<And>g. truthy (get ((f, a') # p) g) = truthy (get p g)"
    using assms truthy_get_cons by blast
  show ?thesis
    using assms(4)
    by (simp add: jurisdiction_field_errors_def t get_or_cons_other Let_def cong: option.case_cong)
qed

lemma errors_cons_address:
  assumes "f \<in> set address_fields" "get p f = Some a" "a \<noteq> []" "a' \<noteq> []"
  shows "errors (validate_request rules ((f, a') # p)) = errors (validate_request rules p)"
proof -
  from assms(1) have ne: "f \<noteq> ''jurisdiction''" "f \<noteq> ''contract_type''"
    by (auto simp: address_fields_def)
  have "jurisdiction_errors rules ((f, a') # p) = jurisdiction_errors rules p"
    using ne by (simp add: jurisdiction_errors_def get_or_cons_other)
  moreover have "contract_type_errors rules ((f, a') # p) = contract_type_errors rules p"
    using ne by (simp add: contract_type_errors_def get_or_cons_other)
  ultimately show ?thesis
    using assms ne
    by (simp add: validate_request_def Let_def missing_errors_cons jurisdiction_field_errors_cons)
qed

lemma valid_iff_no_errors: "valid (validate_request rules p) = (errors (validate_request rules p) = [])"
  by (simp add: validate_request_def Let_def)

lemma missing_errors_shape:
  "x \<in> set (missing_errors p) \<Longrightarrow> \<exists>f. x = ''Missing required field: '' @ f"
  by (auto simp: missing_errors_def split: if_splits)

lemma jurisdiction_errors_shape:
  "x \<in> set (jurisdiction_errors rules p)
   \<Longrightarrow> x = ''Invalid jurisdiction. Valid options: '' @ join '', '' (map fst (jurisdictions rules))"
  by (auto simp: jurisdiction_errors_def Let_def split: if_splits)

lemma contract_type_errors_shape:
  "x \<in> set (contract_type_errors rules p)
   \<Longrightarrow> x = ''Invalid contract type. Valid options: '' @ join '', '' (map fst (contract_types rules))"
  by (auto simp: contract_type_errors_def Let_def split: if_splits)

lemma jurisdiction_field_errors_shape:
  "x \<in> set (jurisdiction_field_errors rules p) \<Longrightarrow> \<exists>r. x = ''Field '' @ r"
  by (auto simp: jurisdiction_field_errors_def Let_def split: option.splits if_splits)

lemma errors_set:
  "set (errors (validate_request rules p))
   = set (missing_errors p) \<union> set (jurisdiction_errors rules p)
     \<union> set (contract_type_errors rules p) \<union> set (jurisdiction_field_errors rules p)"
  by (simp add: validate_request_def Let_def Un_assoc)

lemma address_message_no_error:
  "''Invalid Ethereum address format for '' @ f \<notin> set (errors (validate_request rules p))"
proof
  assume "''Invalid Ethereum address format for '' @ f \<in> set (errors (validate_request rules p))"
  then consider
      (a) "''Invalid Ethereum address format for '' @ f \<in> set (missing_errors p)"
    | (b) "''Invalid Ethereum address format for '' @ f \<in> set (jurisdiction_errors rules p)"
    | (c) "''Invalid Ethereum address format for '' @ f \<in> set (contract_type_errors rules p)"
    | (d) "''Invalid Ethereum address format for '' @ f \<in> set (jurisdiction_field_errors rules p)"
    unfolding errors_set by blast
  then show False
  proof cases
    case a
    from missing_errors_shape [OF a] show False by simp
  next
    case b
    from jurisdiction_errors_shape [OF b] show False by simp
  next
    case c
    from contract_type_errors_shape [OF c] show False by simp
  next
    case d
    from jurisdiction_field_errors_shape [OF d] show False by simp
  qed
qed

lemma address_warning_iff:
  assumes "f \<in> set address_fields" "get p f = Some a" "a \<noteq> []"
  shows "(''Invalid Ethereum address format for '' @ f) \<in> set (warnings (validate_request rules p))
         \<longleftrightarrow> \<not> is_valid_ethereum_address a"
proof -
  have w: "warnings (validate_request rules p) = address_warnings p"
    by (simp add: validate_request_def Let_def)
  from assms(1) consider "f = ''payee_address''" | "f = ''payer_address''"
    by (auto simp: address_fields_def)
  then show ?thesis
  proof cases
    case 1
    with assms(2,3) show ?thesis
      unfolding w address_warnings_def address_fields_def
      by (simp split: option.splits)
  next
    case 2
    with assms(2,3) show ?thesis
      unfolding w address_warnings_def address_fields_def
      by (simp split: option.splits)
  qed
qed

text \<open>
  C8. The address check of the code is the shape of the specification: the text
  starts with \<open>0x\<close>, is 42 characters long, and its remaining 40 characters are
  hexadecimal digits of either case. For a payee or payer address that is supplied (not
  empty), the validator warns exactly when the address fails that shape; the warning is
  never among the errors, and neither the errors nor the validity of the result depend on
  which non-empty address is given.
\<close>

theorem address_check:
  "is_valid_ethereum_address a = address_shape a
   \<and> (f \<in> set address_fields \<and> get payload f = Some a \<and> a \<noteq> [] \<longrightarrow>
        ((''Invalid Ethereum address format for '' @ f)
             \<in> set (warnings (validate_request rules payload)) \<longleftrightarrow> \<not> address_shape a)
        \<and> (''Invalid Ethereum address format for '' @ f)
             \<notin> set (errors (validate_request rules payload))
        \<and> (\<forall>a'. a' \<noteq> [] \<longrightarrow>
              errors (validate_request rules ((f, a') # payload))
                = errors (validate_request rules payload)
              \<and> valid (validate_request rules ((f, a') # payload))
                = valid (validate_request rules payload)))"
proof (intro conjI impI allI)
  show "is_valid_ethereum_address a = address_shape a"
    by (rule is_valid_ethereum_address_shape)
next
  assume h: "f \<in> set address_fields \<and> get payload f = Some a \<and> a \<noteq> []"
  then show "(''Invalid Ethereum address format for '' @ f)
             \<in> set (warnings (validate_request rules payload)) \<longleftrightarrow> \<not> address_shape a"
    using address_warning_iff [of f payload a rules] is_valid_ethereum_address_shape [of a]
    by blast
next
  show "(''Invalid Ethereum address format for '' @ f)
             \<notin> set (errors (validate_request rules payload))"
    by (rule address_message_no_error)
next
  fix a' :: string
  assume h: "f \<in> set address_fields \<and> get payload f = Some a \<and> a \<noteq> []" and a': "a' \<noteq> []"
  then show e: "errors (validate_request rules ((f, a') # payload))
                = errors (validate_request rules payload)"
    using errors_cons_address [of f payload a a' rules] by blast
  then show "valid (validate_request rules ((f, a') # payload))
                = valid (validate_request rules payload)"
    by (simp only: valid_iff_no_errors)
qed

theorem address_check_witness:
  "''payee_address'' \<in> set address_fields
   \<and> get [(''payee_address'', ''0x12345'')] ''payee_address'' = Some ''0x12345''
   \<and> ''0x12345'' \<noteq> []
   \<and> \<not> address_shape ''0x12345''
   \<and> ''Invalid Ethereum address format for payee_address''
        \<in> set (warnings (validate_request sample_rules
                            [(''payee_address'', ''0x12345'')]))
   \<and> ''Invalid Ethereum address format for payee_address''
        \<notin> set (errors (validate_request sample_rules
                            [(''payee_address'', ''0x12345'')]))"
proof -
  have h: "''payee_address'' \<in> set address_fields
           \<and> get [(''payee_address'', ''0x12345'')] ''payee_address'' = Some ''0x12345''
           \<and> ''0x12345'' \<noteq> []"
    by (simp add: address_fields_def get_def)
  have n: "\<not> address_shape ''0x12345''"
    by (simp add: address_shape_def)
  from address_check [of "''0x12345''" "''payee_address''" "[(''payee_address'', ''0x12345'')]"
                         "sample_rules"] h n
  show ?thesis by simp
qed

section \<open>Fenced and bare responses\<close>

lemma contains_Cons:
  "contains (c # cs) sub \<longleftrightarrow> startswith (c # cs) sub \<or> contains cs sub"
  by (simp add: contains_def)

lemma startswith_append: "startswith xs sub \<Longrightarrow> startswith (xs @ ys) sub"
proof -
  assume h: "startswith xs sub"
  then have "length (take (length sub) xs) = length sub"
    unfolding startswith_def by simp
  then have "length sub \<le> length xs"
    by simp
  with h show ?thesis
    unfolding startswith_def by simp
qed

lemma contains_append_right: "contains xs sub \<Longrightarrow> contains (xs @ ys) sub"
proof (induction xs)
  case Nil
  then have "sub = []" by (simp add: contains_def split: if_splits)
  then show ?case by (cases ys) (simp_all add: contains_def startswith_def)
next
  case (Cons c cs)
  then show ?case
    using startswith_append [of "c # cs" sub ys] by (auto simp: contains_Cons)
qed

lemma contains_append_left: "contains ys sub \<Longrightarrow> contains (xs @ ys) sub"
  by (induction xs) (auto simp: contains_Cons)

lemma contains_dropWhile: "contains (dropWhile P s) sub \<Longrightarrow> contains s sub"
  using contains_append_left [of "dropWhile P s" sub "takeWhile P s"] by simp

lemma rstrip_prefix: "s = rstrip s @ rev (takeWhile py_isspace (rev s))"
  unfolding rstrip_def rev_append [symmetric] by simp

lemma contains_rstrip: "contains (rstrip s) sub \<Longrightarrow> contains s sub"
  using contains_append_right [of "rstrip s" sub "rev (takeWhile py_isspace (rev s))"]
    rstrip_prefix [of s] by simp

lemma contains_strip: "contains (strip s) sub \<Longrightarrow> contains s sub"
  unfolding strip_def lstrip_def
  using contains_rstrip contains_dropWhile by blast

lemma find_first_fence_append:
  "\<not> contains J fence \<Longrightarrow> J = [] \<or> last J \<noteq> CHR 0x60
   \<Longrightarrow> find_first (J @ fence) fence = Some (length J)"
proof (induction J)
  case Nil
  show ?case by (simp add: fence_def startswith_def)
next
  case (Cons c J)
  from Cons.prems(1) have n1: "\<not> startswith (c # J) fence" and n2: "\<not> contains J fence"
    by (simp_all add: contains_Cons)
  from Cons.prems(2) have l: "J = [] \<or> last J \<noteq> CHR 0x60" by auto
  have "\<not> startswith ((c # J) @ fence) fence"
  proof (cases J)
    case Nil
    with Cons.prems(2) show ?thesis by (simp add: startswith_def fence_def)
  next
    case (Cons x J')
    note J = this
    show ?thesis
    proof (cases J')
      case Nil
      with J Cons.prems(2) show ?thesis by (simp add: startswith_def fence_def)
    next
      case (Cons y J'')
      with J n1 show ?thesis by (simp add: startswith_def fence_def)
    qed
  qed
  with Cons.IH [OF n2 l] show ?case by simp
qed

lemma startswith_json_fence: "startswith s json_fence \<Longrightarrow> startswith s fence"
proof -
  assume h: "startswith s json_fence"
  have len7: "length json_fence = 7"
    by (simp add: json_fence_def)
  have len3: "length fence = 3"
    by (simp add: fence_def)
  from h have t7: "take 7 s = json_fence"
    unfolding startswith_def len7 .
  have "take 3 s = take 3 (take 7 s)"
    by simp
  also have "\<dots> = fence"
    unfolding t7 by (simp add: json_fence_def fence_def)
  finally show ?thesis
    unfolding startswith_def len3 .
qed

lemma json_fence_contains_fence: "contains s json_fence \<Longrightarrow> contains s fence"
proof (induction s)
  case Nil
  then show ?case by (simp add: contains_def json_fence_def)
next
  case (Cons c cs)
  with startswith_json_fence [of "c # cs"] show ?case by (auto simp: contains_Cons)
qed

lemma strip_id: "s \<noteq> [] \<Longrightarrow> \<not> py_isspace (hd s) \<Longrightarrow> \<not> py_isspace (last s) \<Longrightarrow> strip s = s"
proof -
  assume a: "s \<noteq> []" "\<not> py_isspace (hd s)" "\<not> py_isspace (last s)"
  then have l: "lstrip s = s" by (cases s) (simp_all add: lstrip_def)
  from a have "rev s \<noteq> []" "\<not> py_isspace (hd (rev s))" by (simp_all add: hd_rev)
  then have "dropWhile py_isspace (rev s) = rev s" by (cases "rev s") simp_all
  then have "rstrip s = s" by (simp add: rstrip_def)
  with l show ?thesis by (simp add: strip_def)
qed

lemma backtick_not_space: "\<not> py_isspace (CHR 0x60)"
  by (simp add: py_isspace_def)

lemma extract_bare:
  assumes "\<not> contains J fence"
  shows "extract_json_text J = strip J"
proof -
  from assms have a: "\<not> contains (strip J) fence"
    using contains_strip by blast
  then have b: "\<not> contains (strip J) json_fence"
    using json_fence_contains_fence by blast
  from a b show ?thesis
    by (simp add: extract_json_text_def Let_def)
qed

lemma extract_fenced:
  assumes "\<not> contains J fence" and "J = [] \<or> last J \<noteq> CHR 0x60"
  shows "extract_json_text (json_fence @ J @ fence) = strip J"
proof -
  let ?s = "json_fence @ J @ fence"
  have len7: "length json_fence = 7"
    by (simp add: json_fence_def)
  have s_cons: "?s = CHR 0x60 # tl ?s"
    by (simp add: json_fence_def)
  have "?s \<noteq> []" "hd ?s = CHR 0x60" "last ?s = CHR 0x60"
    by (simp_all add: json_fence_def fence_def)
  then have st: "strip ?s = ?s"
    using strip_id [of ?s] backtick_not_space by simp
  have sw: "startswith ?s json_fence"
    unfolding startswith_def by simp
  have ff: "find_first ?s json_fence = Some 0"
    using sw by (subst s_cons, subst find_first.simps) (simp flip: s_cons)
  then have c: "contains ?s json_fence"
    by (simp add: contains_def)
  have f0: "find_py ?s json_fence = 0"
    using ff by (simp add: find_py_def find_from_def)
  have dr: "drop 7 ?s = J @ fence"
    using len7 by simp
  have fe: "find_from ?s fence 7 = int (7 + length J)"
    using find_first_fence_append [OF assms] len7
    unfolding find_from_def dr by simp
  have sl: "slice ?s 7 (int (7 + length J)) = J"
    unfolding slice_def Let_def using len7 dr by (simp add: fence_def)
  show ?thesis
    unfolding extract_json_text_def Let_def st
    using c f0 fe sl by simp
qed

text \<open>
  C7, as the code has it. For every text \<open>J\<close> that contains no run of three backticks
  and does not end in a backtick (a JSON object text ends in a brace or in white space),
  the response made of \<open>J\<close> inside a fence opened with the JSON tag has the same
  candidate text as \<open>J\<close> given bare, and so parses to the same result, whatever the
  decoder.
\<close>

theorem fenced_equals_bare:
  assumes "\<not> contains J fence" and "J = [] \<or> last J \<noteq> CHR 0x60"
  shows "extract_json_text (json_fence @ J @ fence) = extract_json_text J
         \<and> parse_response loads (json_fence @ J @ fence) = parse_response loads J"
  using extract_fenced [OF assms] extract_bare [OF assms(1)]
  by (simp add: parse_response_def)

lemma sample_artifact_text_plain:
  "\<not> contains sample_artifact_text fence
   \<and> (sample_artifact_text = [] \<or> last sample_artifact_text \<noteq> CHR 0x60)"
  by code_simp

theorem fenced_equals_bare_witness:
  "\<not> contains sample_artifact_text fence
   \<and> (sample_artifact_text = [] \<or> last sample_artifact_text \<noteq> CHR 0x60)
   \<and> parse_response json_loads (json_fence @ sample_artifact_text @ fence)
       = parse_response json_loads sample_artifact_text"
  using fenced_equals_bare [of sample_artifact_text json_loads] sample_artifact_text_plain
  by blast

text \<open>
  The claim as stated fails for a JSON object text that quotes a fence. The artifact below
  is complete and well formed, with a tagged fence inside its description. Given bare, the
  parser cuts out the \<open>{}\<close> between the quoted fences and raises on the missing
  fields; given inside a tagged fence, the closing fence found is the quoted one, the
  candidate is a truncated text, and the parser returns the fallback artifact.
\<close>

theorem fenced_differs_counterexample:
  "json_loads artifact_quoting_fence
     = Decoded (JObject [(''solidity_code'', JString ''a''), (''deploy_script'', JString ''b''),
                         (''tests'', JString ''c''),
                         (''metadata'', JObject [(''description'', JString ''```json{}```'')])])
   \<and> parse_response json_loads artifact_quoting_fence
       = Inl (Wrapped ''Failed to parse contract generation response: ''
                (ValueError ''Missing required field: solidity_code''))
   \<and> parse_response json_loads (json_fence @ [CHR 0x0A] @ artifact_quoting_fence @ [CHR 0x0A] @ fence)
       = Inr create_fallback_response
   \<and> parse_response json_loads (json_fence @ [CHR 0x0A] @ artifact_quoting_fence @ [CHR 0x0A] @ fence)
       \<noteq> parse_response json_loads artifact_quoting_fence"
  by code_simp

section \<open>Responses on which the decoder raises\<close>








section \<open>Deployment data\<close>

text \<open>
  C4, as the code has it. For an existing record whose look-up returns,
  \<open>get_deployment_data\<close> raises nothing. With the metadata column absent or empty
  it uses an empty object and returns deployment data named \<open>GeneratedContract\<close>. With
  a metadata text that decodes to an object it returns deployment data, named by the
  object's \<open>contract_name\<close>, or \<open>GeneratedContract\<close> when the object has none.
  With a metadata text that does not decode, or decodes to something that is no object,
  it returns nothing.
\<close>

theorem deployment_data_metadata:
  assumes "rows d i = Some c"
  shows "(\<not> truthy (contract_metadata c) \<longrightarrow>
            (\<exists>dd. get_deployment_data loads True d i = Some dd
                  \<and> d_metadata dd = JObject []
                  \<and> d_contract_name dd = JString ''GeneratedContract''))
         \<and> (\<forall>kvs. truthy (contract_metadata c)
                    \<and> loads (the (contract_metadata c)) = Decoded (JObject kvs) \<longrightarrow>
            (\<exists>dd. get_deployment_data loads True d i = Some dd
                  \<and> d_metadata dd = JObject kvs
                  \<and> d_contract_name dd
                      = (case map_of kvs ''contract_name'' of
                           None \<Rightarrow> JString ''GeneratedContract''
                         | Some n \<Rightarrow> n)))
         \<and> (truthy (contract_metadata c)
              \<and> (loads (the (contract_metadata c)) = JSONDecodeError
                   \<or> (\<exists>e. loads (the (contract_metadata c)) = DecoderRaised e)
                   \<or> (\<exists>v. loads (the (contract_metadata c)) = Decoded v \<and> \<not> is_dict v)) \<longrightarrow>
            get_deployment_data loads True d i = None)"
proof (intro conjI impI allI)
  assume "\<not> truthy (contract_metadata c)"
  with assms show "\<exists>dd. get_deployment_data loads True d i = Some dd
                  \<and> d_metadata dd = JObject []
                  \<and> d_contract_name dd = JString ''GeneratedContract''"
    by (simp add: get_deployment_data_def get_contract_def)
next
  fix kvs
  assume "truthy (contract_metadata c) \<and> loads (the (contract_metadata c)) = Decoded (JObject kvs)"
  with assms show "\<exists>dd. get_deployment_data loads True d i = Some dd
                  \<and> d_metadata dd = JObject kvs
                  \<and> d_contract_name dd
                      = (case map_of kvs ''contract_name'' of
                           None \<Rightarrow> JString ''GeneratedContract''
                         | Some n \<Rightarrow> n)"
    by (simp add: get_deployment_data_def get_contract_def)
next
  assume h: "truthy (contract_metadata c)
              \<and> (loads (the (contract_metadata c)) = JSONDecodeError
                   \<or> (\<exists>e. loads (the (contract_metadata c)) = DecoderRaised e)
                   \<or> (\<exists>v. loads (the (contract_metadata c)) = Decoded v \<and> \<not> is_dict v))"
  then consider (a) "loads (the (contract_metadata c)) = JSONDecodeError"
    | (r) e where "loads (the (contract_metadata c)) = DecoderRaised e"
    | (b) v where "loads (the (contract_metadata c)) = Decoded v" "\<not> is_dict v"
    by auto
  then show "get_deployment_data loads True d i = None"
  proof cases
    case a
    with assms h show ?thesis
      by (simp add: get_deployment_data_def get_contract_def)
  next
    case r
    with assms h show ?thesis
      by (simp add: get_deployment_data_def get_contract_def)
  next
    case b
    with assms h show ?thesis
      by (cases v) (simp_all add: get_deployment_data_def get_contract_def)
  qed
qed

theorem deployment_data_metadata_witness:
  "rows sample_db 1 = Some sample_contract
   \<and> truthy (contract_metadata sample_contract)
   \<and> json_loads (the (contract_metadata sample_contract)) = Decoded (JObject [])
   \<and> (\<exists>dd. get_deployment_data json_loads True sample_db 1 = Some dd
            \<and> d_metadata dd = JObject []
            \<and> d_contract_name dd = JString ''GeneratedContract'')"
proof -
  have r: "rows sample_db 1 = Some sample_contract"
    by (simp add: sample_db_def)
  have t: "truthy (contract_metadata sample_contract)"
    by (simp add: sample_contract_def new_contract_def truthy_def)
  have l: "json_loads (the (contract_metadata sample_contract)) = Decoded (JObject [])"
    by code_simp
  from deployment_data_metadata [OF r, of json_loads] t l r show ?thesis
    by auto
qed

text \<open>
  The claim as stated fails on a record whose metadata text is no JSON: no deployment
  data is returned.
\<close>

theorem unparseable_metadata_counterexample:
  "rows broken_metadata_db 1 = Some (sample_contract\<lparr>contract_metadata := Some ''{broken''\<rparr>)
   \<and> json_loads ''{broken'' = JSONDecodeError
   \<and> get_deployment_data json_loads True broken_metadata_db 1 = None"
  by code_simp

section \<open>The lifecycle of a record\<close>

lemma supplied_mono: "supplied calls d \<Longrightarrow> supplied (calls @ [cl]) d"
  unfolding supplied_def by (metis Un_iff set_append)

lemma generate_contract_db:
  "snd (generate_contract rules loads dumps now db_ok response d payload) = d
   \<or> (\<exists>code script tsts meta.
        snd (generate_contract rules loads dumps now db_ok response d payload)
        = d\<lparr>rows := (rows d)(next_id d :=
                 Some (new_contract (next_id d) now payload code script tsts meta)),
              next_id := next_id d + 1\<rparr>)"
  by (auto simp: generate_contract_def Let_def split: sum.splits prod.splits)

lemma generate_contract_draft:
  "generate_contract rules loads dumps now db_ok response d payload = (Inr c, d')
   \<Longrightarrow> status c = ''draft'' \<and> transaction_hash c = None \<and> contract_address c = None
       \<and> rows d' (cid c) = Some c"
  by (auto simp: generate_contract_def Let_def new_contract_def split: sum.splits prod.splits if_splits)

lemma update_contract_status_row:
  assumes "rows d i = Some c" and "db_ok"
  shows "\<exists>c'. update_contract_status now db_ok d i st tx addr
                = (True, d\<lparr>rows := (rows d)(i := Some c')\<rparr>)
              \<and> status c' = st
              \<and> transaction_hash c' = (if truthy tx then tx else transaction_hash c)
              \<and> contract_address c' = (if truthy addr then addr else contract_address c)"
proof -
  define c3 where "c3 =
     (let c1 = c\<lparr>status := st\<rparr>;
          c2 = (if truthy tx then c1\<lparr>transaction_hash := tx\<rparr> else c1)
      in if truthy addr then c2\<lparr>contract_address := addr\<rparr> else c2)"
  define c4 where "c4 = (if c3 = c then c3 else c3\<lparr>updated_at := now\<rparr>)"
  have f3: "status c3 = st"
    "transaction_hash c3 = (if truthy tx then tx else transaction_hash c)"
    "contract_address c3 = (if truthy addr then addr else contract_address c)"
    by (simp_all add: c3_def Let_def)
  have f4: "status c4 = status c3" "transaction_hash c4 = transaction_hash c3"
    "contract_address c4 = contract_address c3"
    by (simp_all add: c4_def)
  have "update_contract_status now db_ok d i st tx addr
        = (True, d\<lparr>rows := (rows d)(i := Some c4)\<rparr>)"
    using assms unfolding update_contract_status_def c4_def c3_def Let_def by simp
  with f3 f4 show ?thesis by metis
qed

lemma update_contract_status_supplied:
  assumes "supplied calls d"
      and "\<And>h. truthy tx \<Longrightarrow> tx = Some h \<Longrightarrow> supplies ''transaction_hash'' cl i h"
      and "\<And>a. truthy addr \<Longrightarrow> addr = Some a \<Longrightarrow> supplies ''contract_address'' cl i a"
  shows "supplied (calls @ [cl]) (snd (update_contract_status now db_ok d i st tx addr))"
proof (cases "db_ok \<and> rows d i \<noteq> None")
  case False
  then have "snd (update_contract_status now db_ok d i st tx addr) = d"
    by (auto simp: update_contract_status_def)
  with assms(1) supplied_mono show ?thesis by simp
next
  case True
  then obtain c where c: "rows d i = Some c" and ok: db_ok by auto
  from update_contract_status_row [OF c ok, of now st tx addr]
  obtain c' where r: "snd (update_contract_status now db_ok d i st tx addr)
                      = d\<lparr>rows := (rows d)(i := Some c')\<rparr>"
    and th: "transaction_hash c' = (if truthy tx then tx else transaction_hash c)"
    and ca: "contract_address c' = (if truthy addr then addr else contract_address c)"
    by auto
  from assms(1) c have old:
    "\<And>h. transaction_hash c = Some h \<Longrightarrow> \<exists>x \<in> set calls. supplies ''transaction_hash'' x i h"
    "\<And>a. contract_address c = Some a \<Longrightarrow> \<exists>x \<in> set calls. supplies ''contract_address'' x i a"
    unfolding supplied_def by blast+
  have new: "(\<forall>h. transaction_hash c' = Some h \<longrightarrow>
               (\<exists>x \<in> set (calls @ [cl]). supplies ''transaction_hash'' x i h))
        \<and> (\<forall>a. contract_address c' = Some a \<longrightarrow>
               (\<exists>x \<in> set (calls @ [cl]). supplies ''contract_address'' x i a))"
    using th ca old assms(2,3) by (auto split: if_splits)
  from supplied_mono [OF assms(1), of cl] have m: "supplied (calls @ [cl]) d" .
  show ?thesis
    unfolding supplied_def r
  proof (intro allI impI)
    fix j x
    assume "rows (d\<lparr>rows := (rows d)(i := Some c')\<rparr>) j = Some x"
    then consider (same) "j = i" "x = c'" | (other) "j \<noteq> i" "rows d j = Some x"
      by (auto split: if_splits)
    then show "(\<forall>h. transaction_hash x = Some h \<longrightarrow>
               (\<exists>cl \<in> set (calls @ [cl]). supplies ''transaction_hash'' cl j h))
        \<and> (\<forall>a. contract_address x = Some a \<longrightarrow>
               (\<exists>cl \<in> set (calls @ [cl]). supplies ''contract_address'' cl j a))"
    proof cases
      case same
      with new show ?thesis by simp
    next
      case other
      with m show ?thesis unfolding supplied_def by blast
    qed
  qed
qed

lemma update_route_db:
  "snd (update_contract_status_route now db_ok d i body) = d
   \<or> (\<exists>payload st. body = Some payload
        \<and> snd (update_contract_status_route now db_ok d i body)
            = snd (update_contract_status now db_ok d i st
                     (get payload ''transaction_hash'') (get payload ''contract_address'')))"
proof (cases body)
  case None
  then show ?thesis by (simp add: update_contract_status_route_def)
next
  case (Some payload)
  show ?thesis
  proof (cases "truthy (get payload ''status'')
                \<and> the (get payload ''status'') \<in> set valid_statuses")
    case False
    with Some have "snd (update_contract_status_route now db_ok d i body) = d"
      by (auto simp: update_contract_status_route_def Let_def)
    then show ?thesis ..
  next
    case True
    with Some have "snd (update_contract_status_route now db_ok d i body)
            = snd (update_contract_status now db_ok d i (the (get payload ''status''))
                     (get payload ''transaction_hash'') (get payload ''contract_address''))"
      by (simp add: update_contract_status_route_def Let_def split: prod.splits)
    with Some show ?thesis by blast
  qed
qed

lemma confirm_db:
  "snd (confirm_deployment now db_ok d i body) = d
   \<or> (\<exists>payload. body = Some payload
        \<and> snd (confirm_deployment now db_ok d i body)
            = snd (update_contract_status now db_ok d i ''deployed''
                     (get payload ''transaction_hash'') (get payload ''contract_address'')))"
proof (cases body)
  case None
  then show ?thesis by (simp add: confirm_deployment_def)
next
  case (Some payload)
  show ?thesis
  proof (cases "truthy (get payload ''transaction_hash'')")
    case False
    with Some have "snd (confirm_deployment now db_ok d i body) = d"
      by (simp add: confirm_deployment_def Let_def)
    then show ?thesis ..
  next
    case True
    with Some have "snd (confirm_deployment now db_ok d i body)
            = snd (update_contract_status now db_ok d i ''deployed''
                     (get payload ''transaction_hash'') (get payload ''contract_address''))"
      by (simp add: confirm_deployment_def Let_def split: prod.splits)
    with Some show ?thesis by blast
  qed
qed

lemma truthy_Some: "truthy v \<Longrightarrow> v = Some h \<Longrightarrow> h \<noteq> []"
  by (simp add: truthy_def)

lemma generate_supplied:
  assumes "supplied calls d"
  shows "supplied (calls @ [cl])
           (snd (generate_contract rules loads dumps now db_ok response d payload))"
proof -
  from supplied_mono [OF assms, of cl] have m: "supplied (calls @ [cl]) d" .
  from generate_contract_db [of rules loads dumps now db_ok response d payload]
  show ?thesis
  proof
    assume "snd (generate_contract rules loads dumps now db_ok response d payload) = d"
    with m show ?thesis by simp
  next
    assume "\<exists>code script tsts meta.
        snd (generate_contract rules loads dumps now db_ok response d payload)
        = d\<lparr>rows := (rows d)(next_id d :=
                 Some (new_contract (next_id d) now payload code script tsts meta)),
              next_id := next_id d + 1\<rparr>"
    then obtain code script tsts meta where
      r: "snd (generate_contract rules loads dumps now db_ok response d payload)
        = d\<lparr>rows := (rows d)(next_id d :=
                 Some (new_contract (next_id d) now payload code script tsts meta)),
              next_id := next_id d + 1\<rparr>"
      by blast
    show ?thesis
      unfolding r using m
      by (auto simp: supplied_def new_contract_def)
  qed
qed

lemma step_supplied:
  assumes "supplied calls d"
  shows "supplied (calls @ [cl]) (step rules loads dumps d cl)"
proof -
  obtain req now db_ok where cl: "cl = (req, now, db_ok)"
    by (cases cl) auto
  from supplied_mono [OF assms, of cl] have m: "supplied (calls @ [cl]) d" .
  show ?thesis
  proof (cases req)
    case (Generate payload response)
    with cl generate_supplied [OF assms] show ?thesis by simp
  next
    case (UpdateStatus i body)
    from update_route_db [of now db_ok d i body] show ?thesis
    proof
      assume "snd (update_contract_status_route now db_ok d i body) = d"
      with m cl UpdateStatus show ?thesis by simp
    next
      assume "\<exists>payload st. body = Some payload
        \<and> snd (update_contract_status_route now db_ok d i body)
            = snd (update_contract_status now db_ok d i st
                     (get payload ''transaction_hash'') (get payload ''contract_address''))"
      then obtain payload st where b: "body = Some payload"
        and r: "snd (update_contract_status_route now db_ok d i body)
            = snd (update_contract_status now db_ok d i st
                     (get payload ''transaction_hash'') (get payload ''contract_address''))"
        by blast
      have "supplied (calls @ [cl]) (snd (update_contract_status now db_ok d i st
                     (get payload ''transaction_hash'') (get payload ''contract_address'')))"
        by (rule update_contract_status_supplied [OF assms])
           (simp_all add: cl UpdateStatus b truthy_Some)
      with r cl UpdateStatus show ?thesis by simp
    qed
  next
    case (ConfirmDeployment i body)
    from confirm_db [of now db_ok d i body] show ?thesis
    proof
      assume "snd (confirm_deployment now db_ok d i body) = d"
      with m cl ConfirmDeployment show ?thesis by simp
    next
      assume "\<exists>payload. body = Some payload
        \<and> snd (confirm_deployment now db_ok d i body)
            = snd (update_contract_status now db_ok d i ''deployed''
                     (get payload ''transaction_hash'') (get payload ''contract_address''))"
      then obtain payload where b: "body = Some payload"
        and r: "snd (confirm_deployment now db_ok d i body)
            = snd (update_contract_status now db_ok d i ''deployed''
                     (get payload ''transaction_hash'') (get payload ''contract_address''))"
        by blast
      have "supplied (calls @ [cl]) (snd (update_contract_status now db_ok d i ''deployed''
                     (get payload ''transaction_hash'') (get payload ''contract_address'')))"
        by (rule update_contract_status_supplied [OF assms])
           (simp_all add: cl ConfirmDeployment b truthy_Some)
      with r cl ConfirmDeployment show ?thesis by simp
    qed
  qed
qed

lemma run_supplied:
  "no_hash_or_address d0 \<Longrightarrow> supplied calls (run rules loads dumps d0 calls)"
proof (induction calls rule: rev_induct)
  case Nil
  then show ?case by (simp add: run_def supplied_def no_hash_or_address_def)
next
  case (snoc cl calls)
  then have "supplied calls (run rules loads dumps d0 calls)" by simp
  from step_supplied [OF this, of cl rules loads dumps] show ?case
    by (simp add: run_def)
qed

lemma supplies_nonempty: "supplies field cl i v \<Longrightarrow> v \<noteq> []"
  by (cases "(field, cl, i, v)" rule: supplies.cases) simp_all

text \<open>
  C1, as the code has it. Generation creates a record in status \<open>draft\<close> with no
  transaction hash and no contract address. In every store reached by a run of
  generations, status updates and deployment confirmations from a store without hashes
  and addresses (the empty store is one), a transaction hash or contract address that a
  record carries is not empty and was supplied by a status update or a deployment
  confirmation addressed to that record. The status the record then has can be any of the
  three.
\<close>

theorem stored_hash_was_supplied:
  "no_hash_or_address empty_db
   \<and> (generate_contract rules loads dumps now db_ok response d payload = (Inr g, d') \<longrightarrow>
        status g = ''draft'' \<and> transaction_hash g = None \<and> contract_address g = None
        \<and> rows d' (cid g) = Some g)
   \<and> (no_hash_or_address d0 \<and> rows (run rules loads dumps d0 calls) i = Some c \<longrightarrow>
        (\<forall>h. transaction_hash c = Some h \<longrightarrow>
               h \<noteq> [] \<and> (\<exists>cl \<in> set calls. supplies ''transaction_hash'' cl i h))
        \<and> (\<forall>a. contract_address c = Some a \<longrightarrow>
               a \<noteq> [] \<and> (\<exists>cl \<in> set calls. supplies ''contract_address'' cl i a)))"
proof (intro conjI impI)
  show "no_hash_or_address empty_db"
    by (simp add: no_hash_or_address_def empty_db_def)
next
  assume "generate_contract rules loads dumps now db_ok response d payload = (Inr g, d')"
  from generate_contract_draft [OF this]
  show "status g = ''draft''" "transaction_hash g = None" "contract_address g = None"
    "rows d' (cid g) = Some g"
    by simp_all
next
  assume h: "no_hash_or_address d0 \<and> rows (run rules loads dumps d0 calls) i = Some c"
  then have s: "supplied calls (run rules loads dumps d0 calls)"
    using run_supplied by blast
  from s h show "\<forall>h. transaction_hash c = Some h \<longrightarrow>
               h \<noteq> [] \<and> (\<exists>cl \<in> set calls. supplies ''transaction_hash'' cl i h)"
    unfolding supplied_def using supplies_nonempty by blast
  from s h show "\<forall>a. contract_address c = Some a \<longrightarrow>
               a \<noteq> [] \<and> (\<exists>cl \<in> set calls. supplies ''contract_address'' cl i a)"
    unfolding supplied_def using supplies_nonempty by blast
qed

lemma sample_generation_result:
  "fst (generate_contract sample_rules json_loads sample_dumps 1 True
          (Some ''I cannot help with that.'') empty_db sample_payload)
   = Inr (new_contract 1 1 sample_payload (JString fallback_solidity_code)
            (JString fallback_deploy_script) (JString fallback_tests) ''{}'')"
  by code_simp

lemma sample_generation:
  "generate_contract sample_rules json_loads sample_dumps 1 True
     (Some ''I cannot help with that.'') empty_db sample_payload
   = (Inr (new_contract 1 1 sample_payload (JString fallback_solidity_code)
             (JString fallback_deploy_script) (JString fallback_tests) ''{}''),
      snd (generate_contract sample_rules json_loads sample_dumps 1 True
             (Some ''I cannot help with that.'') empty_db sample_payload))"
  using sample_generation_result by (metis prod.collapse)

lemma sample_run_row:
  "rows (run sample_rules json_loads sample_dumps empty_db sample_calls) 1
   = Some (the (rows (run sample_rules json_loads sample_dumps empty_db sample_calls) 1))"
  by code_simp

lemma sample_run_hash:
  "transaction_hash (the (rows (run sample_rules json_loads sample_dumps empty_db sample_calls) 1))
   = Some ''0xabc''"
  by code_simp

theorem stored_hash_was_supplied_witness:
  "no_hash_or_address empty_db
   \<and> generate_contract sample_rules json_loads sample_dumps 1 True
        (Some ''I cannot help with that.'') empty_db sample_payload
      = (Inr (new_contract 1 1 sample_payload (JString fallback_solidity_code)
                (JString fallback_deploy_script) (JString fallback_tests) ''{}''),
         snd (generate_contract sample_rules json_loads sample_dumps 1 True
                (Some ''I cannot help with that.'') empty_db sample_payload))
   \<and> status (new_contract 1 1 sample_payload (JString fallback_solidity_code)
                (JString fallback_deploy_script) (JString fallback_tests) ''{}'') = ''draft''
   \<and> rows (run sample_rules json_loads sample_dumps empty_db sample_calls) 1
      = Some (the (rows (run sample_rules json_loads sample_dumps empty_db sample_calls) 1))
   \<and> transaction_hash
        (the (rows (run sample_rules json_loads sample_dumps empty_db sample_calls) 1))
      = Some ''0xabc''
   \<and> (\<exists>cl \<in> set sample_calls. supplies ''transaction_hash'' cl 1 ''0xabc'')"
proof -
  note t = stored_hash_was_supplied
    [where rules = sample_rules and loads = json_loads and dumps = sample_dumps
       and now = 1 and db_ok = True and response = "Some ''I cannot help with that.''"
       and d = empty_db and payload = sample_payload
       and g = "new_contract 1 1 sample_payload (JString fallback_solidity_code)
                  (JString fallback_deploy_script) (JString fallback_tests) ''{}''"
       and d' = "snd (generate_contract sample_rules json_loads sample_dumps 1 True
                        (Some ''I cannot help with that.'') empty_db sample_payload)"
       and ?d0.0 = empty_db and calls = sample_calls and i = 1
       and c = "the (rows (run sample_rules json_loads sample_dumps empty_db sample_calls) 1)"]
  from t have e: "no_hash_or_address empty_db"
    by blast
  from t sample_generation
  have g: "status (new_contract 1 1 sample_payload (JString fallback_solidity_code)
                (JString fallback_deploy_script) (JString fallback_tests) ''{}'') = ''draft''"
    by blast
  from t e sample_run_row sample_run_hash
  have s: "\<exists>cl \<in> set sample_calls. supplies ''transaction_hash'' cl 1 ''0xabc''"
    by blast
  from e g s sample_generation sample_run_row sample_run_hash show ?thesis
    by blast
qed

text \<open>
  The claim as stated fails: after a generation, one status update with status
  \<open>draft\<close> and a transaction hash leaves the record in \<open>draft\<close> with the hash
  stored.
\<close>

theorem draft_with_hash_counterexample:
  "map_option status (rows (run sample_rules json_loads sample_dumps empty_db sample_calls) 1)
     = Some ''draft''
   \<and> map_option transaction_hash
         (rows (run sample_rules json_loads sample_dumps empty_db sample_calls) 1)
     = Some (Some ''0xabc'')"
  by code_simp

section \<open>Rejected status values\<close>

lemma update_route_status:
  "snd (update_contract_status_route now db_ok d i body) = d
   \<or> (\<exists>payload st. st \<in> set valid_statuses
        \<and> snd (update_contract_status_route now db_ok d i body)
            = snd (update_contract_status now db_ok d i st
                     (get payload ''transaction_hash'') (get payload ''contract_address'')))"
proof (cases body)
  case None
  then show ?thesis by (simp add: update_contract_status_route_def)
next
  case (Some payload)
  show ?thesis
  proof (cases "truthy (get payload ''status'')
                \<and> the (get payload ''status'') \<in> set valid_statuses")
    case False
    with Some have "snd (update_contract_status_route now db_ok d i body) = d"
      by (auto simp: update_contract_status_route_def Let_def)
    then show ?thesis ..
  next
    case True
    with Some have "snd (update_contract_status_route now db_ok d i body)
            = snd (update_contract_status now db_ok d i (the (get payload ''status''))
                     (get payload ''transaction_hash'') (get payload ''contract_address''))"
      by (simp add: update_contract_status_route_def Let_def split: prod.splits)
    with True show ?thesis by blast
  qed
qed

lemma update_keeps_recognized:
  assumes "recognized_statuses d" and "st \<in> set valid_statuses"
  shows "recognized_statuses (snd (update_contract_status now db_ok d i st tx addr))"
proof (cases "db_ok \<and> rows d i \<noteq> None")
  case False
  then have "snd (update_contract_status now db_ok d i st tx addr) = d"
    by (auto simp: update_contract_status_def)
  with assms(1) show ?thesis by simp
next
  case True
  then obtain c where c: "rows d i = Some c" and ok: db_ok by auto
  from update_contract_status_row [OF c ok, of now st tx addr]
  obtain c' where r: "snd (update_contract_status now db_ok d i st tx addr)
                      = d\<lparr>rows := (rows d)(i := Some c')\<rparr>"
    and s: "status c' = st"
    by auto
  from assms s show ?thesis
    unfolding r recognized_statuses_def by simp
qed

lemma generate_keeps_recognized:
  assumes "recognized_statuses d"
  shows "recognized_statuses
           (snd (generate_contract rules loads dumps now db_ok response d payload))"
proof -
  from generate_contract_db [of rules loads dumps now db_ok response d payload]
  consider (same) "snd (generate_contract rules loads dumps now db_ok response d payload) = d"
    | (new) code script tsts meta where
        "snd (generate_contract rules loads dumps now db_ok response d payload)
         = d\<lparr>rows := (rows d)(next_id d :=
                  Some (new_contract (next_id d) now payload code script tsts meta)),
               next_id := next_id d + 1\<rparr>"
    by blast
  then show ?thesis
  proof cases
    case same
    with assms show ?thesis by simp
  next
    case new
    have n: "status (new_contract (next_id d) now payload code script tsts meta)
             \<in> set valid_statuses"
      by (simp add: new_contract_def valid_statuses_def)
    have rw: "rows (snd (generate_contract rules loads dumps now db_ok response d payload))
              = (rows d)(next_id d :=
                   Some (new_contract (next_id d) now payload code script tsts meta))"
      unfolding new by simp
    show ?thesis
      unfolding recognized_statuses_def rw
    proof (intro allI impI)
      fix j x
      assume a: "((rows d)(next_id d :=
                   Some (new_contract (next_id d) now payload code script tsts meta))) j
                 = Some x"
      show "status x \<in> set valid_statuses"
      proof (cases "j = next_id d")
        case True
        with a have "x = new_contract (next_id d) now payload code script tsts meta"
          by simp
        with n show ?thesis by simp
      next
        case False
        with a have "rows d j = Some x"
          by simp
        with assms show ?thesis unfolding recognized_statuses_def by blast
      qed
    qed
  qed
qed

lemma step_keeps_recognized:
  assumes "recognized_statuses d"
  shows "recognized_statuses (step rules loads dumps d cl)"
proof -
  obtain req now db_ok where cl: "cl = (req, now, db_ok)"
    by (cases cl) auto
  show ?thesis
  proof (cases req)
    case (Generate payload response)
    with cl generate_keeps_recognized [OF assms] show ?thesis by simp
  next
    case (UpdateStatus i body)
    from update_route_status [of now db_ok d i body]
    have "recognized_statuses (snd (update_contract_status_route now db_ok d i body))"
    proof
      assume "snd (update_contract_status_route now db_ok d i body) = d"
      with assms show ?thesis by simp
    next
      assume "\<exists>payload st. st \<in> set valid_statuses
        \<and> snd (update_contract_status_route now db_ok d i body)
            = snd (update_contract_status now db_ok d i st
                     (get payload ''transaction_hash'') (get payload ''contract_address''))"
      then obtain payload st where st: "st \<in> set valid_statuses"
        and r: "snd (update_contract_status_route now db_ok d i body)
            = snd (update_contract_status now db_ok d i st
                     (get payload ''transaction_hash'') (get payload ''contract_address''))"
        by blast
      from update_keeps_recognized [OF assms st] show ?thesis
        unfolding r .
    qed
    with cl UpdateStatus show ?thesis by simp
  next
    case (ConfirmDeployment i body)
    have dep: "''deployed'' \<in> set valid_statuses"
      by (simp add: valid_statuses_def)
    from confirm_db [of now db_ok d i body]
    have "recognized_statuses (snd (confirm_deployment now db_ok d i body))"
    proof
      assume "snd (confirm_deployment now db_ok d i body) = d"
      with assms show ?thesis by simp
    next
      assume "\<exists>payload. body = Some payload
        \<and> snd (confirm_deployment now db_ok d i body)
            = snd (update_contract_status now db_ok d i ''deployed''
                     (get payload ''transaction_hash'') (get payload ''contract_address''))"
      then obtain payload where
        r: "snd (confirm_deployment now db_ok d i body)
            = snd (update_contract_status now db_ok d i ''deployed''
                     (get payload ''transaction_hash'') (get payload ''contract_address''))"
        by blast
      from update_keeps_recognized [OF assms dep] show ?thesis
        unfolding r .
    qed
    with cl ConfirmDeployment show ?thesis by simp
  qed
qed

lemma run_keeps_recognized:
  "recognized_statuses d0 \<Longrightarrow> recognized_statuses (run rules loads dumps d0 calls)"
proof (induction calls rule: rev_induct)
  case Nil
  then show ?case by (simp add: run_def)
next
  case (snoc cl calls)
  then have "recognized_statuses (run rules loads dumps d0 calls)" by simp
  from step_keeps_recognized [OF this, of rules loads dumps cl] show ?case
    by (simp add: run_def)
qed

text \<open>
  C6. A status-update request whose \<open>status\<close> is none of \<open>draft\<close>, \<open>deployed\<close>,
  \<open>failed\<close> (missing and empty included) is answered with a 400 validation error, and
  the store is left exactly as it was: no field of any record changes. The check is the
  route's; the service stores the status it is handed, and it is called by this route
  and by the deployment confirmation only, which passes \<open>deployed\<close>. So from a
  store whose statuses are all recognized, every run of requests reaches a store whose
  statuses are all recognized: a value outside the three is never stored.
\<close>

theorem unknown_status_rejected:
  "(get payload ''status'' \<notin> {Some ''draft'', Some ''deployed'', Some ''failed''} \<longrightarrow>
      (\<exists>msg. update_contract_status_route now db_ok d i (Some payload)
              = (Failure 400 msg, d)))
   \<and> (recognized_statuses d0 \<longrightarrow> recognized_statuses (run rules loads dumps d0 calls))"
proof (intro conjI impI)
  assume "get payload ''status'' \<notin> {Some ''draft'', Some ''deployed'', Some ''failed''}"
  then show "\<exists>msg. update_contract_status_route now db_ok d i (Some payload)
              = (Failure 400 msg, d)"
    by (cases "get payload ''status''")
       (simp_all add: update_contract_status_route_def valid_statuses_def Let_def truthy_def)
next
  assume "recognized_statuses d0"
  then show "recognized_statuses (run rules loads dumps d0 calls)"
    by (rule run_keeps_recognized)
qed

theorem unknown_status_rejected_witness:
  "get [(''status'', ''pending''), (''transaction_hash'', ''0xabc'')] ''status''
     \<notin> {Some ''draft'', Some ''deployed'', Some ''failed''}
   \<and> (\<exists>msg. update_contract_status_route 7 True sample_db 1
              (Some [(''status'', ''pending''), (''transaction_hash'', ''0xabc'')])
            = (Failure 400 msg, sample_db))
   \<and> recognized_statuses empty_db
   \<and> recognized_statuses (run sample_rules json_loads sample_dumps empty_db pending_calls)"
proof -
  have h: "get [(''status'', ''pending''), (''transaction_hash'', ''0xabc'')] ''status''
           \<notin> {Some ''draft'', Some ''deployed'', Some ''failed''}"
    by (simp add: get_def)
  have e: "recognized_statuses empty_db"
    by (simp add: recognized_statuses_def empty_db_def)
  from unknown_status_rejected
         [of "[(''status'', ''pending''), (''transaction_hash'', ''0xabc'')]" 7 True sample_db 1
             empty_db sample_rules json_loads sample_dumps pending_calls] h e
  show ?thesis by blast
qed

section \<open>The validator on any payload\<close>

lemma map_of_as_json: "map_of (as_json p) k = map_option JString (map_of p k)"
  by (induction p) (auto simp: as_json_def)

lemma present_as_json: "present (map_of (as_json p) k) = truthy (get p k)"
  by (simp add: map_of_as_json present_def truthy_def get_def split: option.splits)

lemma validate_request_json_text:
  "validate_request_json rules (as_json p) = Inr (validate_request rules p)"
proof -
  have l: "\<And>k. text_lower (dict_get (as_json p) k (JString [])) = Inr (lower (get_or p k []))"
    by (simp add: dict_get_def get_or_def map_of_as_json split: option.splits)
  have w: "address_warnings_json (as_json p) = Inr (address_warnings p)"
    by (simp add: address_warnings_json_def address_warnings_def address_fields_def
        map_of_as_json get_def split: option.splits)
  have m: "missing_errors_json (as_json p) = missing_errors p"
    by (simp add: missing_errors_json_def missing_errors_def present_as_json)
  have f: "field_errors_json rules (lower (get_or p ''jurisdiction'' [])) (as_json p)
           = jurisdiction_field_errors rules p"
    by (simp add: field_errors_json_def jurisdiction_field_errors_def present_as_json Let_def
        cong: option.case_cong)
  show ?thesis
    unfolding validate_request_json_def l w m
    by (simp add: f validate_request_def membership_errors_def jurisdiction_errors_def
        contract_type_errors_def Let_def)
qed

lemma missing_errors_json_shape:
  "x \<in> set (missing_errors_json p) \<Longrightarrow> \<exists>f. x = ''Missing required field: '' @ f"
  by (auto simp: missing_errors_json_def split: if_splits)

lemma membership_errors_shape:
  "x \<in> set (membership_errors message key keys) \<Longrightarrow> x = message @ join '', '' keys"
  by (auto simp: membership_errors_def split: if_splits)

lemma field_errors_json_shape:
  "x \<in> set (field_errors_json rules jur p) \<Longrightarrow> \<exists>r. x = ''Field '' @ r"
  by (auto simp: field_errors_json_def split: option.splits if_splits)



lemma text_lower_nonempty:
  "text_lower (dict_get payload k (JString [])) = Inr key \<Longrightarrow>
   key \<noteq> [] \<longleftrightarrow> (\<exists>t. map_of payload k = Some (JString t) \<and> t \<noteq> [] \<and> key = lower t)"
proof (cases "map_of payload k")
  case None
  then show "text_lower (dict_get payload k (JString [])) = Inr key \<Longrightarrow> ?thesis"
    by (auto simp: dict_get_def lower_def)
next
  case (Some x)
  then show "text_lower (dict_get payload k (JString [])) = Inr key \<Longrightarrow> ?thesis"
    by (cases x) (auto simp: dict_get_def lower_def)
qed





lemma jurisdiction_message_prefix:
  "take 9 (''Invalid jurisdiction. Valid options: '' @ opts) = ''Invalid j''"
  "take 1 (''Invalid jurisdiction. Valid options: '' @ opts) = ''I''"
  "take 9 (''Invalid contract type. Valid options: '' @ opts) = ''Invalid c''"
  "take 1 (''Invalid contract type. Valid options: '' @ opts) = ''I''"
  "take 1 (''Missing required field: '' @ f) = ''M''"
  by simp_all













end
